theory Spec2Isabelle
  imports Complex_Main "HOL-Library.Word" "HOL-Library.Multiset" "HOL-Library.Code_Target_Nat"
begin

section \<open>Values of the recipe\<close>

text \<open>
  The recipe \<^verbatim>\<open>recipes/GigaSpeech/ASR/CTC/train_with_wav2vec.py\<close> is a set of callbacks
  over a training framework. Tensors are nested lists (the first axis is the batch),
  floating-point numbers are read as reals, a Python \<^verbatim>\<open>str\<close> of a transcript is a list
  of code points, and device placement (\<^verbatim>\<open>.to(self.device)\<close>) changes no value.
\<close>

datatype Stage = TRAIN | VALID | TEST

datatype error = AttributeError string | KeyError string | TypeError | UnicodeDecodeError

type_synonym pystr = "nat list"
type_synonym words = "pystr list"
type_synonym wavs = "real list list"
type_synonym lens = "real list"
type_synonym feats = "real list list list"
type_synonym params = "real list"
type_synonym byte = "8 word"

datatype param_group = Wav2vec2_parameters | Model_parameters

type_synonym store = "param_group \<Rightarrow> params"

definition bind_err :: "error + 'a \<Rightarrow> ('a \<Rightarrow> error + 'b) \<Rightarrow> error + 'b" where
  "bind_err r f = (case r of Inl e \<Rightarrow> Inl e | Inr x \<Rightarrow> f x)"

text \<open>Reading an attribute that was never assigned raises \<^verbatim>\<open>AttributeError\<close>.\<close>

definition attr :: "string \<Rightarrow> 'a option \<Rightarrow> error + 'a" where
  "attr name v = (case v of None \<Rightarrow> Inl (AttributeError name) | Some x \<Rightarrow> Inr x)"

text \<open>\<^verbatim>\<open>d[k]\<close> on a dict kept as an association list.\<close>

definition dict_get :: "(string \<times> 'v) list \<Rightarrow> string \<Rightarrow> error + 'v" where
  "dict_get d k = (case map_of d k of None \<Rightarrow> Inl (KeyError k) | Some v \<Rightarrow> Inr v)"

text \<open>A list comprehension whose body may raise: the first exception ends it.\<close>

fun map_err :: "('a \<Rightarrow> error + 'b) \<Rightarrow> 'a list \<Rightarrow> error + 'b list" where
  "map_err f [] = Inr []"
| "map_err f (x # xs) =
     (case f x of
        Inl e \<Rightarrow> Inl e
      | Inr y \<Rightarrow> (case map_err f xs of Inl e \<Rightarrow> Inl e | Inr ys \<Rightarrow> Inr (y # ys)))"

text \<open>\<^verbatim>\<open>int(x)\<close> truncates towards zero; \<^verbatim>\<open>xs[:k]\<close> counts a negative k from the end.\<close>

definition py_int :: "real \<Rightarrow> int" where
  "py_int r = (if 0 \<le> r then \<lfloor>r\<rfloor> else \<lceil>r\<rceil>)"

definition slice_to :: "int \<Rightarrow> 'a list \<Rightarrow> 'a list" where
  "slice_to k xs = (if 0 \<le> k then take (nat k) xs else take (length xs - nat (- k)) xs)"

text \<open>\<^verbatim>\<open>s.split(" ")\<close>: every single separator splits, empty pieces are kept.\<close>

fun split_on :: "nat \<Rightarrow> pystr \<Rightarrow> pystr list" where
  "split_on sep [] = [[]]"
| "split_on sep (c # cs) =
     (if c = sep then [] # split_on sep cs
      else (case split_on sep cs of [] \<Rightarrow> [[c]] | w # ws \<Rightarrow> (c # w) # ws))"

definition space :: nat where
  "space = 32"

text \<open>\<^verbatim>\<open>os.path.join(a, b)\<close> for a relative \<^verbatim>\<open>b\<close>.\<close>

definition os_path_join :: "string \<Rightarrow> string \<Rightarrow> string" where
  "os_path_join a b = (if a = [] \<or> last a = CHR ''/'' then a @ b else a @ ''/'' @ b)"

text \<open>
  \<^verbatim>\<open>b.decode("utf-8")\<close>: the strict decoder of Python. A byte below 128 is its own code
  point; a lead byte announces one, two or three continuation bytes (\<^verbatim>\<open>10xxxxxx\<close>), and a
  sequence that is cut short, overlong, a surrogate or beyond \<^verbatim>\<open>U+10FFFF\<close> raises
  \<^verbatim>\<open>UnicodeDecodeError\<close>.
\<close>

definition continuation :: "byte \<Rightarrow> bool" where
  "continuation b \<longleftrightarrow> 128 \<le> unat b \<and> unat b \<le> 191"

definition payload :: "byte \<Rightarrow> nat" where
  "payload b = unat b - 128"

fun utf8_decode :: "byte list \<Rightarrow> error + pystr" where
  "utf8_decode [] = Inr []"
| "utf8_decode (b # bs) =
     (let n = unat b
      in if n < 128 then
           (case utf8_decode bs of Inl e \<Rightarrow> Inl e | Inr cs \<Rightarrow> Inr (n # cs))
         else if 194 \<le> n \<and> n \<le> 223 then
           (case bs of
              b1 # more \<Rightarrow>
                (let cp = (n - 192) * 64 + payload b1
                 in if continuation b1 then
                      (case utf8_decode more of Inl e \<Rightarrow> Inl e | Inr cs \<Rightarrow> Inr (cp # cs))
                    else Inl UnicodeDecodeError)
            | _ \<Rightarrow> Inl UnicodeDecodeError)
         else if 224 \<le> n \<and> n \<le> 239 then
           (case bs of
              b1 # b2 # more \<Rightarrow>
                (let cp = (n - 224) * 4096 + payload b1 * 64 + payload b2
                 in if continuation b1 \<and> continuation b2 \<and> 2048 \<le> cp \<and>
                       (cp < 55296 \<or> 57343 < cp) then
                      (case utf8_decode more of Inl e \<Rightarrow> Inl e | Inr cs \<Rightarrow> Inr (cp # cs))
                    else Inl UnicodeDecodeError)
            | _ \<Rightarrow> Inl UnicodeDecodeError)
         else if 240 \<le> n \<and> n \<le> 244 then
           (case bs of
              b1 # b2 # b3 # more \<Rightarrow>
                (let cp = (n - 240) * 262144 + payload b1 * 4096 + payload b2 * 64 + payload b3
                 in if continuation b1 \<and> continuation b2 \<and> continuation b3 \<and>
                       65536 \<le> cp \<and> cp \<le> 1114111 then
                      (case utf8_decode more of Inl e \<Rightarrow> Inl e | Inr cs \<Rightarrow> Inr (cp # cs))
                    else Inl UnicodeDecodeError)
            | _ \<Rightarrow> Inl UnicodeDecodeError)
         else Inl UnicodeDecodeError)"

section \<open>Objects of the framework\<close>

subsection \<open>Optimizers and schedulers\<close>

text \<open>
  Modelled from the spec: the optimizer classes (\<^verbatim>\<open>wav2vec_opt_class\<close>,
  \<^verbatim>\<open>model_opt_class\<close>) come from the configuration and from torch. An optimizer is
  built over one group of parameters, holds a learning rate, and its step replaces the
  parameters of its group by what its update rule computes from them and their gradients.
\<close>

record opt_class =
  class_lr :: real
  class_rule :: "real \<Rightarrow> params \<Rightarrow> params \<Rightarrow> params"

record optimizer =
  opt_over :: param_group
  opt_lr :: real
  opt_rule :: "real \<Rightarrow> params \<Rightarrow> params \<Rightarrow> params"

definition construct_optimizer :: "opt_class \<Rightarrow> param_group \<Rightarrow> optimizer" where
  "construct_optimizer c g = \<lparr>opt_over = g, opt_lr = class_lr c, opt_rule = class_rule c\<rparr>"

definition opt_step :: "optimizer \<Rightarrow> store \<Rightarrow> store \<Rightarrow> store" where
  "opt_step opt w g =
     w(opt_over opt := opt_rule opt (opt_lr opt) (w (opt_over opt)) (g (opt_over opt)))"

definition opt_zero_grad :: "optimizer \<Rightarrow> store \<Rightarrow> store" where
  "opt_zero_grad opt g = g(opt_over opt := map (\<lambda>_. 0) (g (opt_over opt)))"

text \<open>
  Modelled from the spec: a learning-rate scheduler (\<^verbatim>\<open>lr_annealing_model\<close>,
  \<^verbatim>\<open>lr_annealing_wav2vec\<close>) is a callable that holds the current value; called with the
  stage loss it returns the old and the new value and keeps the new one.
\<close>

record scheduler =
  hyperparam_value :: real
  anneal :: "real \<Rightarrow> real \<Rightarrow> real"

definition scheduler_call :: "scheduler \<Rightarrow> real \<Rightarrow> (real \<times> real) \<times> scheduler" where
  "scheduler_call s metric_value =
     (let old_value = hyperparam_value s;
          new_value = anneal s old_value metric_value
      in ((old_value, new_value), s\<lparr>hyperparam_value := new_value\<rparr>))"

text \<open>
  Modelled from the spec: \<^verbatim>\<open>sb.nnet.schedulers.update_learning_rate(optimizer, new_lr)\<close>
  gives the optimizer the new learning rate.
\<close>

definition update_learning_rate :: "optimizer \<Rightarrow> real \<Rightarrow> optimizer" where
  "update_learning_rate opt new_lr = opt\<lparr>opt_lr := new_lr\<rparr>"

subsection \<open>Error-rate accumulators\<close>

text \<open>
  Modelled from the spec: the metric classes (\<^verbatim>\<open>cer_computer\<close>,
  \<^verbatim>\<open>error_rate_computer\<close>) build accumulators of error-rate statistics. An accumulator
  starts with nothing appended, \<^verbatim>\<open>append\<close> adds the ids, the predicted and the target
  word sequences of one batch, and \<^verbatim>\<open>summarize\<close> and \<^verbatim>\<open>write_stats\<close> are functions of
  what was appended.
\<close>

type_synonym appended = "(string list \<times> words list \<times> words list) list"

record metric_class =
  class_summarize :: "appended \<Rightarrow> string \<Rightarrow> real"
  class_write_stats :: "appended \<Rightarrow> string"

record error_rate_stats =
  scores :: appended
  stats_class :: metric_class

definition construct_metric :: "metric_class \<Rightarrow> error_rate_stats" where
  "construct_metric c = \<lparr>scores = [], stats_class = c\<rparr>"

definition metric_append ::
  "error_rate_stats \<Rightarrow> string list \<Rightarrow> words list \<Rightarrow> words list \<Rightarrow> error_rate_stats" where
  "metric_append m ids predict target = m\<lparr>scores := scores m @ [(ids, predict, target)]\<rparr>"

definition summarize :: "error_rate_stats \<Rightarrow> string \<Rightarrow> real" where
  "summarize m field = class_summarize (stats_class m) (scores m) field"

definition write_stats :: "error_rate_stats \<Rightarrow> string" where
  "write_stats m = class_write_stats (stats_class m) (scores m)"

subsection \<open>Checkpointer, logger, label encoder\<close>

text \<open>
  Modelled from the spec: the checkpointer keeps the objects registered for recovery
  under their names and the save requests it received, each with its metadata and the
  keys whose minimum selects the checkpoints to keep.
\<close>

datatype recoverable = Optimizer_object optimizer | Other_object string

record save_request =
  meta :: "(string \<times> real) list"
  min_keys :: "string list"

record checkpointer =
  recoverables :: "string \<rightharpoonup> recoverable"
  save_requests :: "save_request list"

definition add_recoverable :: "checkpointer \<Rightarrow> string \<Rightarrow> recoverable \<Rightarrow> checkpointer" where
  "add_recoverable c name obj = c\<lparr>recoverables := (recoverables c)(name \<mapsto> obj)\<rparr>"

definition save_and_keep_only ::
  "checkpointer \<Rightarrow> (string \<times> real) list \<Rightarrow> string list \<Rightarrow> checkpointer" where
  "save_and_keep_only c m ks =
     c\<lparr>save_requests := save_requests c @ [\<lparr>meta = m, min_keys = ks\<rparr>]\<rparr>"

record log_entry =
  stats_meta :: "(string \<times> real) list"
  log_train_stats :: "(string \<times> real) list option"
  log_valid_stats :: "(string \<times> real) list option"
  log_test_stats :: "(string \<times> real) list option"

text \<open>
  Modelled from the spec: the label encoder maps labels to integer token ids. A label
  is a Python string (a character of a transcript is a string of length one).
  \<^verbatim>\<open>encode_sequence\<close> looks every label up and \<^verbatim>\<open>decode_ndim\<close> maps ids back;
  a label or id that is not in the mapping raises \<^verbatim>\<open>KeyError\<close>.
\<close>

record encoder =
  lab2ind :: "(pystr \<times> int) list"

definition blank_label :: pystr where
  "blank_label = map of_char ''<blank>''"

definition encode_label :: "encoder \<Rightarrow> pystr \<Rightarrow> error + int" where
  "encode_label e l =
     (case map_of (lab2ind e) l of None \<Rightarrow> Inl (KeyError ''label'') | Some i \<Rightarrow> Inr i)"

definition encode_sequence :: "encoder \<Rightarrow> pystr list \<Rightarrow> error + int list" where
  "encode_sequence e ls = map_err (encode_label e) ls"

definition decode_index :: "encoder \<Rightarrow> int \<Rightarrow> error + pystr" where
  "decode_index e i =
     (case map_of (map (\<lambda>(l, j). (j, l)) (lab2ind e)) i of
        None \<Rightarrow> Inl (KeyError ''index'')
      | Some l \<Rightarrow> Inr l)"

definition decode_ndim :: "encoder \<Rightarrow> int list \<Rightarrow> error + pystr list" where
  "decode_ndim e xs = map_err (decode_index e) xs"

section \<open>The brain and its configuration\<close>

record padded_batch =
  batch_id :: "string list"
  batch_sig :: "wavs \<times> lens"
  batch_tokens :: "int list list \<times> lens"

text \<open>
  \<^verbatim>\<open>self.modules\<close>: the networks read the current parameters; \<^verbatim>\<open>env_corrupt\<close> is there
  or not (\<^verbatim>\<open>hasattr\<close>).
\<close>

record modules =
  wav2vec2 :: "store \<Rightarrow> wavs \<Rightarrow> feats"
  enc :: "store \<Rightarrow> feats \<Rightarrow> feats"
  ctc_lin :: "store \<Rightarrow> feats \<Rightarrow> feats"
  env_corrupt :: "(wavs \<Rightarrow> lens \<Rightarrow> wavs) option"

text \<open>
  \<^verbatim>\<open>hparams\<close>, as the configuration file fills it. \<^verbatim>\<open>hparams.model.parameters()\<close> is the
  parameter group \<^const>\<open>Model_parameters\<close>, \<^verbatim>\<open>modules.wav2vec2.parameters()\<close> the group
  \<^const>\<open>Wav2vec2_parameters\<close>.
\<close>

record hparams =
  augmentation :: "(wavs \<Rightarrow> lens \<Rightarrow> wavs) option"
  log_softmax :: "feats \<Rightarrow> feats"
  blank_index :: int
  ctc_cost :: "feats \<Rightarrow> int list list \<Rightarrow> lens \<Rightarrow> lens \<Rightarrow> real"
  cer_computer :: metric_class
  error_rate_computer :: metric_class
  lr_annealing_model :: scheduler
  lr_annealing_wav2vec :: scheduler
  train_logger :: "log_entry list"
  epoch_counter_current :: nat
  wer_file :: "string option"
  wav2vec_opt_class :: opt_class
  model_opt_class :: opt_class
  train_shards :: string
  valid_shards :: string
  test_shards :: string
  shard_cache_dir :: string
  shuffle_shards :: nat
  save_folder :: string
  output_folder :: string
  batch_size :: nat
  test_batch_size :: nat

datatype file_content = Text_file string | Label_encoder_file "(pystr \<times> int) list"

type_synonym filesystem = "string \<rightharpoonup> file_content"

text \<open>
  The brain: the attributes the recipe reads and writes. An attribute assigned only by
  a callback (\<^verbatim>\<open>cer_metric\<close>, \<^verbatim>\<open>wer_metric\<close>, \<^verbatim>\<open>train_stats\<close>, the two optimizers,
  \<^verbatim>\<open>tokenizer\<close>) is absent until then. The parameters and their gradients are kept
  once, by group, since the modules and the optimizers share them.
\<close>

record brain =
  modules :: modules
  hparams :: hparams
  checkpointer :: "checkpointer option"
  tokenizer :: "encoder option"
  weights :: store
  grads :: store
  wav2vec_optimizer :: "optimizer option"
  model_optimizer :: "optimizer option"
  cer_metric :: "error_rate_stats option"
  wer_metric :: "error_rate_stats option"
  train_stats :: "(string \<times> real) list option"
  files :: filesystem

text \<open>A raw sample of a shard and what \<^verbatim>\<open>shard_extractor\<close> makes of it.\<close>

record raw_sample =
  sample_key :: string
  sample_wav :: "byte list"
  sample_text :: "byte list"

datatype sig_tensor = Sig1 "real list" | Sig2 "real list list"

record example =
  ex_id :: string
  ex_sig :: sig_tensor
  ex_tokens :: "int list"

text \<open>A generator: what it yields, and the exception that ends it, if one does.\<close>

type_synonym 'a iter = "'a list \<times> error option"

text \<open>
  The library functions the recipe calls and whose code is elsewhere: greedy decoding,
  the gradient check of the brain (it may clip the gradients), autograd, and what the
  data pipeline reads the shards, shuffles, decodes the audio and collates with.
\<close>

record lib =
  ctc_greedy_decode :: "feats \<Rightarrow> lens \<Rightarrow> int \<Rightarrow> int list list"
  check_gradients :: "real \<Rightarrow> store \<Rightarrow> bool \<times> store"
  backward :: "store \<Rightarrow> padded_batch \<Rightarrow> store \<Rightarrow> store"
  glob :: "string \<Rightarrow> string list"
  WebDataset :: "string list \<Rightarrow> string \<Rightarrow> raw_sample iter"
  shuffle :: "nat \<Rightarrow> raw_sample iter \<Rightarrow> raw_sample iter"
  torchaudio_load :: "byte list \<Rightarrow> real list list \<times> nat"
  PaddedBatch :: "example list \<Rightarrow> padded_batch"

section \<open>The callbacks of class ASR\<close>

subsection \<open>compute_forward\<close>

text \<open>Lines 45 to 53: what is fed to the encoder.\<close>

definition forward_inputs :: "brain \<Rightarrow> Stage \<Rightarrow> wavs \<times> lens \<Rightarrow> wavs \<times> lens" where
  "forward_inputs self stage sig =
     (let (wavs, wav_lens) = sig
      in if stage = TRAIN then
           (let (wavs, wav_lens) =
                  (case env_corrupt (modules self) of
                     Some corrupt \<Rightarrow>
                       (let wavs_noise = corrupt wavs wav_lens
                        in (wavs @ wavs_noise, wav_lens @ wav_lens))
                   | None \<Rightarrow> (wavs, wav_lens));
                wavs =
                  (case augmentation (hparams self) of
                     Some augment \<Rightarrow> augment wavs wav_lens
                   | None \<Rightarrow> wavs)
            in (wavs, wav_lens))
         else (wavs, wav_lens))"

definition compute_forward ::
  "lib \<Rightarrow> brain \<Rightarrow> padded_batch \<Rightarrow> Stage \<Rightarrow> feats \<times> lens \<times> int list list option" where
  "compute_forward sb self batch stage =
     (let (wavs, wav_lens) = forward_inputs self stage (batch_sig batch);
          feats = wav2vec2 (modules self) (weights self) wavs;
          x = enc (modules self) (weights self) feats;
          logits = ctc_lin (modules self) (weights self) x;
          p_ctc = log_softmax (hparams self) logits;
          p_tokens =
            (if stage \<noteq> TRAIN
             then Some (ctc_greedy_decode sb p_ctc wav_lens (blank_index (hparams self)))
             else None)
      in (p_ctc, wav_lens, p_tokens))"

subsection \<open>compute_objectives\<close>

text \<open>\<^verbatim>\<open>"".join(self.tokenizer.decode_ndim(seq)).split(" ")\<close>\<close>

definition decode_words :: "encoder option \<Rightarrow> int list \<Rightarrow> error + words" where
  "decode_words tok seq =
     bind_err (attr ''tokenizer'' tok) (\<lambda>t.
     bind_err (decode_ndim t seq) (\<lambda>labels.
     Inr (split_on space (concat labels))))"

definition predicted_words :: "encoder option \<Rightarrow> int list list option \<Rightarrow> error + words list" where
  "predicted_words tok predicted_tokens =
     (case predicted_tokens of
        None \<Rightarrow> Inl TypeError
      | Some seqs \<Rightarrow> map_err (decode_words tok) seqs)"

definition target_words :: "encoder option \<Rightarrow> int list list \<Rightarrow> lens \<Rightarrow> error + words list" where
  "target_words tok tokens tokens_lens =
     map_err (\<lambda>(utt_tokens, utt_len).
                decode_words tok (slice_to (py_int (utt_len * real (length utt_tokens))) utt_tokens))
             (zip tokens tokens_lens)"

text \<open>Lines 73 to 77: the targets the loss is computed against.\<close>

definition objective_targets :: "brain \<Rightarrow> Stage \<Rightarrow> padded_batch \<Rightarrow> int list list \<times> lens" where
  "objective_targets self stage batch =
     (let (tokens, tokens_lens) = batch_tokens batch
      in if env_corrupt (modules self) \<noteq> None \<and> stage = TRAIN
         then (tokens @ tokens, tokens_lens @ tokens_lens)
         else (tokens, tokens_lens))"

definition compute_objectives ::
  "brain \<Rightarrow> feats \<times> lens \<times> int list list option \<Rightarrow> padded_batch \<Rightarrow> Stage \<Rightarrow>
   error + (real \<times> brain)" where
  "compute_objectives self predictions batch stage =
     (let (p_ctc, wav_lens, predicted_tokens) = predictions;
          ids = batch_id batch;
          (tokens, tokens_lens) = objective_targets self stage batch;
          loss_ctc = ctc_cost (hparams self) p_ctc tokens wav_lens tokens_lens;
          loss = loss_ctc
      in if stage \<noteq> TRAIN then
           bind_err (predicted_words (tokenizer self) predicted_tokens) (\<lambda>predicted.
           bind_err (target_words (tokenizer self) tokens tokens_lens) (\<lambda>target.
           bind_err (attr ''wer_metric'' (wer_metric self)) (\<lambda>wer.
           bind_err (attr ''cer_metric'' (cer_metric self)) (\<lambda>cer.
           Inr (loss, self\<lparr>wer_metric := Some (metric_append wer ids predicted target),
                            cer_metric := Some (metric_append cer ids predicted target)\<rparr>)))))
         else Inr (loss, self))"

subsection \<open>fit_batch and evaluate_batch\<close>

definition fit_batch :: "lib \<Rightarrow> brain \<Rightarrow> padded_batch \<Rightarrow> error + (real \<times> brain)" where
  "fit_batch sb self batch =
     (let predictions = compute_forward sb self batch TRAIN
      in bind_err (compute_objectives self predictions batch TRAIN) (\<lambda>(loss, self).
         let self = self\<lparr>grads := backward sb (weights self) batch (grads self)\<rparr>;
             (ok, clipped) = check_gradients sb loss (grads self);
             self = self\<lparr>grads := clipped\<rparr>
         in bind_err
              (if ok then
                 bind_err (attr ''wav2vec_optimizer'' (wav2vec_optimizer self)) (\<lambda>wopt.
                 let self = self\<lparr>weights := opt_step wopt (weights self) (grads self)\<rparr>
                 in bind_err (attr ''model_optimizer'' (model_optimizer self)) (\<lambda>mopt.
                    Inr (self\<lparr>weights := opt_step mopt (weights self) (grads self)\<rparr>)))
               else Inr self) (\<lambda>self.
            bind_err (attr ''wav2vec_optimizer'' (wav2vec_optimizer self)) (\<lambda>wopt.
            let self = self\<lparr>grads := opt_zero_grad wopt (grads self)\<rparr>
            in bind_err (attr ''model_optimizer'' (model_optimizer self)) (\<lambda>mopt.
               Inr (loss, self\<lparr>grads := opt_zero_grad mopt (grads self)\<rparr>))))))"

definition evaluate_batch ::
  "lib \<Rightarrow> brain \<Rightarrow> padded_batch \<Rightarrow> Stage \<Rightarrow> error + (real \<times> brain)" where
  "evaluate_batch sb self batch stage =
     (let predictions = compute_forward sb self batch stage
      in compute_objectives self predictions batch stage)"

subsection \<open>on_stage_start and on_stage_end\<close>

definition on_stage_start :: "brain \<Rightarrow> Stage \<Rightarrow> nat \<Rightarrow> brain" where
  "on_stage_start self stage epoch =
     (if stage \<noteq> TRAIN then
        self\<lparr>cer_metric := Some (construct_metric (cer_computer (hparams self))),
             wer_metric := Some (construct_metric (error_rate_computer (hparams self)))\<rparr>
      else self)"

text \<open>Lines 123 to 128: the statistics of the stage, and \<^verbatim>\<open>train_stats\<close> kept at TRAIN.\<close>

definition stage_statistics ::
  "brain \<Rightarrow> Stage \<Rightarrow> real \<Rightarrow> error + ((string \<times> real) list \<times> brain)" where
  "stage_statistics self stage stage_loss =
     (let stage_stats = [(''loss'', stage_loss)]
      in if stage = TRAIN then Inr (stage_stats, self\<lparr>train_stats := Some stage_stats\<rparr>)
         else
           bind_err (attr ''cer_metric'' (cer_metric self)) (\<lambda>cer.
           let stage_stats = stage_stats @ [(''CER'', summarize cer ''error_rate'')]
           in bind_err (attr ''wer_metric'' (wer_metric self)) (\<lambda>wer.
              let stage_stats = stage_stats @ [(''WER'', summarize wer ''error_rate'')]
              in Inr (stage_stats, self))))"

definition log_stats :: "brain \<Rightarrow> log_entry \<Rightarrow> brain" where
  "log_stats self entry =
     self\<lparr>hparams := (hparams self)\<lparr>train_logger := train_logger (hparams self) @ [entry]\<rparr>\<rparr>"

definition on_stage_end :: "brain \<Rightarrow> Stage \<Rightarrow> real \<Rightarrow> nat \<Rightarrow> error + brain" where
  "on_stage_end self stage stage_loss epoch =
     bind_err (stage_statistics self stage stage_loss) (\<lambda>(stage_stats, self).
     if stage = VALID then
       bind_err (dict_get stage_stats ''loss'') (\<lambda>loss.
       let ((old_lr_model, new_lr_model), sched_model) =
             scheduler_call (lr_annealing_model (hparams self)) loss;
           self = self\<lparr>hparams := (hparams self)\<lparr>lr_annealing_model := sched_model\<rparr>\<rparr>;
           ((old_lr_wav2vec, new_lr_wav2vec), sched_wav2vec) =
             scheduler_call (lr_annealing_wav2vec (hparams self)) loss;
           self = self\<lparr>hparams := (hparams self)\<lparr>lr_annealing_wav2vec := sched_wav2vec\<rparr>\<rparr>
       in bind_err (attr ''model_optimizer'' (model_optimizer self)) (\<lambda>mopt.
          let self = self\<lparr>model_optimizer := Some (update_learning_rate mopt new_lr_model)\<rparr>
          in bind_err (attr ''wav2vec_optimizer'' (wav2vec_optimizer self)) (\<lambda>wopt.
             let self = self\<lparr>wav2vec_optimizer :=
                               Some (update_learning_rate wopt new_lr_wav2vec)\<rparr>
             in bind_err (attr ''train_stats'' (train_stats self)) (\<lambda>tstats.
                let self = log_stats self
                      \<lparr>stats_meta = [(''epoch'', real epoch), (''lr_model'', old_lr_model),
                                     (''lr_wav2vec'', old_lr_wav2vec)],
                       log_train_stats = Some tstats,
                       log_valid_stats = Some stage_stats,
                       log_test_stats = None\<rparr>
                in bind_err (attr ''checkpointer'' (checkpointer self)) (\<lambda>ckpt.
                   bind_err (dict_get stage_stats ''WER'') (\<lambda>wer_value.
                   Inr (self\<lparr>checkpointer :=
                               Some (save_and_keep_only ckpt [(''WER'', wer_value)] [''WER''])\<rparr>)))))))
     else if stage = TEST then
       (let self = log_stats self
              \<lparr>stats_meta = [(''Epoch loaded'', real (epoch_counter_current (hparams self)))],
               log_train_stats = None,
               log_valid_stats = None,
               log_test_stats = Some stage_stats\<rparr>
        in bind_err (attr ''wer_file'' (wer_file (hparams self))) (\<lambda>path.
           let self = self\<lparr>files := (files self)(path \<mapsto> Text_file [])\<rparr>
           in bind_err (attr ''wer_metric'' (wer_metric self)) (\<lambda>wer.
              Inr (self\<lparr>files := (files self)(path \<mapsto> Text_file (write_stats wer))\<rparr>))))
     else Inr self)"

subsection \<open>init_optimizers\<close>

definition init_optimizers :: "brain \<Rightarrow> brain" where
  "init_optimizers self =
     (let wopt = construct_optimizer (wav2vec_opt_class (hparams self)) Wav2vec2_parameters;
          self = self\<lparr>wav2vec_optimizer := Some wopt\<rparr>;
          mopt = construct_optimizer (model_opt_class (hparams self)) Model_parameters;
          self = self\<lparr>model_optimizer := Some mopt\<rparr>
      in case checkpointer self of
           Some ckpt \<Rightarrow>
             (let ckpt = add_recoverable ckpt ''wav2vec_opt'' (Optimizer_object wopt);
                  ckpt = add_recoverable ckpt ''modelopt'' (Optimizer_object mopt)
              in self\<lparr>checkpointer := Some ckpt\<rparr>)
         | None \<Rightarrow> self)"

section \<open>The data pipeline\<close>

subsection \<open>Generators of the dataset library\<close>

fun map_until_error :: "('a \<Rightarrow> error + 'b) \<Rightarrow> 'a list \<Rightarrow> 'b list \<times> error option" where
  "map_until_error f [] = ([], None)"
| "map_until_error f (x # xs) =
     (case f x of
        Inl e \<Rightarrow> ([], Some e)
      | Inr y \<Rightarrow> (let (ys, r) = map_until_error f xs in (y # ys, r)))"

text \<open>
  \<^verbatim>\<open>data.map(f)\<close>: the images of the samples in order; an exception of \<^verbatim>\<open>f\<close> ends the
  generator where it is raised.
\<close>

definition map_iter :: "('a \<Rightarrow> error + 'b) \<Rightarrow> 'a iter \<Rightarrow> 'b iter" where
  "map_iter f data =
     (let (xs, e) = data; (ys, r) = map_until_error f xs
      in (ys, case r of Some e' \<Rightarrow> Some e' | None \<Rightarrow> e))"

text \<open>
  Modelled from the spec: \<^verbatim>\<open>batched\<close> of the dataset library is not among the sources.
  It groups the samples, in order, into lists of \<^verbatim>\<open>batchsize\<close> samples and yields the
  collation of each; with \<^verbatim>\<open>partial=False\<close> a shorter last group is dropped.
  \<open>group_samples\<close> reads the samples one by one: it returns the groups that were
  closed on the way and the group still open at the end; \<open>batch_groups\<close> are the
  groups that are collated. When an exception ends the stream, the open group is lost.
\<close>

fun group_samples :: "nat \<Rightarrow> 'a list \<Rightarrow> 'a list \<Rightarrow> 'a list list \<times> 'a list" where
  "group_samples n batch [] = ([], batch)"
| "group_samples n batch (sample # data) =
     (if n \<le> length batch
      then (let (gs, r) = group_samples n [sample] data in (batch # gs, r))
      else group_samples n (batch @ [sample]) data)"

definition batch_groups :: "nat \<Rightarrow> bool \<Rightarrow> 'a iter \<Rightarrow> 'a list list" where
  "batch_groups n partial data =
     (let (xs, e) = data; (gs, r) = group_samples n [] xs
      in case e of
           Some err \<Rightarrow> gs
         | None \<Rightarrow> (if r = [] then gs
                     else if length r = n \<or> partial then gs @ [r]
                     else gs))"

definition batched :: "nat \<Rightarrow> ('a list \<Rightarrow> 'b) \<Rightarrow> bool \<Rightarrow> 'a iter \<Rightarrow> 'b iter" where
  "batched n collation_fn partial data = (map collation_fn (batch_groups n partial data), snd data)"

text \<open>\<^verbatim>\<open>a + b\<close> on datasets chains them.\<close>

definition chain :: "'a iter \<Rightarrow> 'a iter \<Rightarrow> 'a iter" where
  "chain a b = (case snd a of Some e \<Rightarrow> a | None \<Rightarrow> (fst a @ fst b, snd b))"

subsection \<open>The label encoder file\<close>

text \<open>
  Modelled from the spec: \<^verbatim>\<open>load_or_create\<close> of the label encoder is not among the
  sources. The encoder is loaded from the file at \<^verbatim>\<open>path\<close> when that file holds one
  (a restart); otherwise it is built, with the blank symbol reserved at its index and the
  labels of the sequences it is given (an optional argument, empty when left out) in the
  order they are first seen, and persisted at \<^verbatim>\<open>path\<close>.
  \<open>next_index\<close> is the first index not in use, \<open>add_labels\<close> adds the labels not
  yet known, \<open>handle_special_labels\<close> reserves the blank symbol.
\<close>

definition next_index :: "(pystr \<times> int) list \<Rightarrow> int" where
  "next_index m =
     (case find (\<lambda>i. i \<notin> set (map snd m)) (map int [0..<Suc (length m)]) of
        Some i \<Rightarrow> i
      | None \<Rightarrow> int (length m))"

fun add_labels :: "(pystr \<times> int) list \<Rightarrow> pystr list \<Rightarrow> (pystr \<times> int) list" where
  "add_labels m [] = m"
| "add_labels m (l # ls) =
     (if l \<in> set (map fst m) then add_labels m ls
      else add_labels (m @ [(l, next_index m)]) ls)"

definition handle_special_labels :: "(string \<times> int) list \<Rightarrow> (pystr \<times> int) list" where
  "handle_special_labels special_labels =
     (case map_of special_labels ''blank_label'' of
        Some i \<Rightarrow> [(blank_label, i)]
      | None \<Rightarrow> [])"

definition load_or_create ::
  "filesystem \<Rightarrow> string \<Rightarrow> pystr list list \<Rightarrow> (string \<times> int) list \<Rightarrow> filesystem \<times> encoder" where
  "load_or_create fs path from_sequences special_labels =
     (case fs path of
        Some (Label_encoder_file m) \<Rightarrow> (fs, \<lparr>lab2ind = m\<rparr>)
      | _ \<Rightarrow>
          (let m = add_labels (handle_special_labels special_labels) (concat from_sequences)
           in (fs(path \<mapsto> Label_encoder_file m), \<lparr>lab2ind = m\<rparr>)))"

subsection \<open>dataio_prepare\<close>

text \<open>\<^verbatim>\<open>sig.transpose(0, 1).squeeze(1)\<close> on the channels that \<^verbatim>\<open>torchaudio.load\<close> returns.\<close>

definition transpose_squeeze :: "real list list \<Rightarrow> sig_tensor" where
  "transpose_squeeze channels =
     (case channels of [channel] \<Rightarrow> Sig1 channel | _ \<Rightarrow> Sig2 (transpose channels))"

definition shard_extractor :: "lib \<Rightarrow> encoder \<Rightarrow> raw_sample \<Rightarrow> error + example" where
  "shard_extractor io label_encoder input_dict =
     (let f_IO = sample_wav input_dict;
          (sig, fs) = torchaudio_load io f_IO;
          sig = transpose_squeeze sig
      in bind_err (utf8_decode (sample_text input_dict)) (\<lambda>decoded.
         let char_list = map (\<lambda>c. [c]) decoded
         in bind_err (encode_sequence label_encoder char_list) (\<lambda>tokens_list.
            let tokens = tokens_list
            in Inr \<lparr>ex_id = sample_key input_dict, ex_sig = sig, ex_tokens = tokens\<rparr>)))"

text \<open>Lines 184 to 186: the three streams of raw samples.\<close>

definition shard_stream :: "lib \<Rightarrow> hparams \<Rightarrow> string \<Rightarrow> raw_sample iter" where
  "shard_stream io hp shards =
     shuffle io (shuffle_shards hp) (WebDataset io (glob io shards) (shard_cache_dir hp))"

definition dataio_prepare ::
  "lib \<Rightarrow> hparams \<Rightarrow> filesystem \<Rightarrow>
   (padded_batch iter \<times> padded_batch iter \<times> padded_batch iter \<times> encoder) \<times> filesystem" where
  "dataio_prepare io hp fs =
     (let train_data = shard_stream io hp (train_shards hp);
          valid_data = shard_stream io hp (valid_shards hp);
          test_data = shard_stream io hp (test_shards hp);
          lab_enc_file = os_path_join (save_folder hp) ''label_encoder.txt'';
          special_labels = [(''blank_label'', blank_index hp)];
          datasets = [chain (chain train_data valid_data) test_data];
          (fs, label_encoder) = load_or_create fs lab_enc_file [] special_labels;
          train_data = batched (batch_size hp) (PaddedBatch io) False
                         (map_iter (shard_extractor io label_encoder) train_data);
          valid_data = batched (batch_size hp) (PaddedBatch io) False
                         (map_iter (shard_extractor io label_encoder) valid_data);
          test_data = batched (test_batch_size hp) (PaddedBatch io) False
                        (map_iter (shard_extractor io label_encoder) test_data)
      in ((train_data, valid_data, test_data, label_encoder), fs))"

section \<open>The stages as the training loop runs them\<close>

text \<open>
  Modelled from the spec: the control loop belongs to the framework. A stage other than
  training starts with \<^verbatim>\<open>on_stage_start\<close>, calls \<^verbatim>\<open>evaluate_batch\<close> on every batch in
  order and ends with \<^verbatim>\<open>on_stage_end\<close> on the average loss.
\<close>

fun evaluate_batches ::
  "lib \<Rightarrow> brain \<Rightarrow> padded_batch list \<Rightarrow> Stage \<Rightarrow> error + (real list \<times> brain)" where
  "evaluate_batches sb self [] stage = Inr ([], self)"
| "evaluate_batches sb self (batch # batches) stage =
     bind_err (evaluate_batch sb self batch stage) (\<lambda>(loss, self).
     bind_err (evaluate_batches sb self batches stage) (\<lambda>(losses, self).
     Inr (loss # losses, self)))"

definition average :: "real list \<Rightarrow> real" where
  "average ls = (if ls = [] then 0 else sum_list ls / real (length ls))"

definition run_stage ::
  "lib \<Rightarrow> brain \<Rightarrow> Stage \<Rightarrow> nat \<Rightarrow> padded_batch list \<Rightarrow> error + brain" where
  "run_stage sb self stage epoch batches =
     (let self = on_stage_start self stage epoch
      in bind_err (evaluate_batches sb self batches stage) (\<lambda>(losses, self).
         on_stage_end self stage (average losses) epoch))"

text \<open>Lines 292 to 294 of the main program, before \<^verbatim>\<open>evaluate\<close>.\<close>

definition set_wer_file :: "brain \<Rightarrow> brain" where
  "set_wer_file asr_brain =
     asr_brain\<lparr>hparams := (hparams asr_brain)
       \<lparr>wer_file := Some (os_path_join (output_folder (hparams asr_brain)) ''wer_test.txt'')\<rparr>\<rparr>"

text \<open>The stream of examples that enters \<^verbatim>\<open>batched\<close> for one set of shards.\<close>

definition examples :: "lib \<Rightarrow> hparams \<Rightarrow> encoder \<Rightarrow> string \<Rightarrow> example iter" where
  "examples io hp label_encoder shards =
     map_iter (shard_extractor io label_encoder) (shard_stream io hp shards)"

text \<open>
  What it means that \<open>groups\<close> are the batches of exactly \<open>n\<close> samples of a stream:
  every group has \<open>n\<close> samples, together they are the first samples of the stream in
  order, and when the stream ends without an exception only the \<open>length mod n\<close>
  trailing samples are missing.
\<close>

definition exactly_batched :: "nat \<Rightarrow> 'a iter \<Rightarrow> 'a list list \<Rightarrow> bool" where
  "exactly_batched n data groups \<longleftrightarrow>
     list_all (\<lambda>g. length g = n) groups \<and>
     concat groups = take (n * length groups) (fst data) \<and>
     (if snd data = None then length groups = length (fst data) div n else True)"

section \<open>Concrete inputs\<close>

text \<open>
  A small configuration on which the callbacks are evaluated: networks that copy their
  input, a gradient check that fails from a bound on, three training samples whose
  transcript is \<^verbatim>\<open>a a\<close>, batches of two.
\<close>

definition demo_metric_class :: metric_class where
  "demo_metric_class =
     \<lparr>class_summarize = (\<lambda>sc field. real (length sc)),
      class_write_stats = (\<lambda>sc. replicate (length sc) CHR ''u'')\<rparr>"

definition demo_opt_class :: "real \<Rightarrow> opt_class" where
  "demo_opt_class r = \<lparr>class_lr = r, class_rule = (\<lambda>lr w g. map2 (\<lambda>a b. a - lr * b) w g)\<rparr>"

definition demo_modules :: "bool \<Rightarrow> modules" where
  "demo_modules noisy =
     \<lparr>wav2vec2 = (\<lambda>w x. map (map (\<lambda>s. [s])) x),
      enc = (\<lambda>w f. f),
      ctc_lin = (\<lambda>w f. f),
      env_corrupt =
        (if noisy then Some (\<lambda>wavs wav_lens. map (map (\<lambda>s. s + 1)) wavs) else None)\<rparr>"

definition demo_hparams :: hparams where
  "demo_hparams =
     \<lparr>augmentation = None,
      log_softmax = (\<lambda>x. x),
      blank_index = 0,
      ctc_cost = (\<lambda>p t wl tl. real (length t)),
      cer_computer = demo_metric_class,
      error_rate_computer = demo_metric_class,
      lr_annealing_model = \<lparr>hyperparam_value = 1, anneal = (\<lambda>v loss. v / 2)\<rparr>,
      lr_annealing_wav2vec = \<lparr>hyperparam_value = 4, anneal = (\<lambda>v loss. v / 4)\<rparr>,
      train_logger = [],
      epoch_counter_current = 1,
      wer_file = None,
      wav2vec_opt_class = demo_opt_class 4,
      model_opt_class = demo_opt_class 1,
      train_shards = ''train-*.tar'',
      valid_shards = ''valid-*.tar'',
      test_shards = ''test-*.tar'',
      shard_cache_dir = ''cache'',
      shuffle_shards = 10,
      save_folder = ''save'',
      output_folder = ''out'',
      batch_size = 2,
      test_batch_size = 1\<rparr>"

definition demo_checkpointer :: checkpointer where
  "demo_checkpointer = \<lparr>recoverables = Map.empty, save_requests = []\<rparr>"

definition demo_encoder :: encoder where
  "demo_encoder = \<lparr>lab2ind = [(blank_label, 0), ([97], 1), ([32], 2)]\<rparr>"

definition demo_brain :: "bool \<Rightarrow> checkpointer option \<Rightarrow> brain" where
  "demo_brain noisy ckpt =
     \<lparr>modules = demo_modules noisy,
      hparams = demo_hparams,
      checkpointer = ckpt,
      tokenizer = Some demo_encoder,
      weights = (\<lambda>g. [1]),
      grads = (\<lambda>g. [0]),
      wav2vec_optimizer = None,
      model_optimizer = None,
      cer_metric = None,
      wer_metric = None,
      train_stats = None,
      files = Map.empty\<rparr>"

definition demo_stats :: error_rate_stats where
  "demo_stats = \<lparr>scores = [([''utt0''], [[[97]]], [[[97]]])], stats_class = demo_metric_class\<rparr>"

text \<open>The brain after \<^verbatim>\<open>init_optimizers\<close>, a training stage and a started evaluation.\<close>

definition demo_ready_brain :: brain where
  "demo_ready_brain =
     (init_optimizers (demo_brain True (Some demo_checkpointer)))
       \<lparr>cer_metric := Some demo_stats, wer_metric := Some demo_stats,
        train_stats := Some [(''loss'', 3)]\<rparr>"

definition demo_batch :: padded_batch where
  "demo_batch =
     \<lparr>batch_id = [''utt1'', ''utt2''],
      batch_sig = ([[1, 2], [3, 0]], [1, 1 / 2]),
      batch_tokens = ([[1, 2, 1], [1, 0, 0]], [1, 1 / 3])\<rparr>"

definition demo_sample :: "string \<Rightarrow> raw_sample" where
  "demo_sample k = \<lparr>sample_key = k, sample_wav = [1, 2], sample_text = [97, 32, 97]\<rparr>"

definition demo_lib :: "real \<Rightarrow> lib" where
  "demo_lib bound =
     \<lparr>ctc_greedy_decode = (\<lambda>p wav_lens blank. map (\<lambda>u. [1, 2, 1]) p),
      check_gradients = (\<lambda>loss g. (loss < bound, g)),
      backward = (\<lambda>w batch g grp. map (\<lambda>x. x + 1) (g grp)),
      glob = (\<lambda>pattern. [pattern]),
      WebDataset =
        (\<lambda>urls cache.
           if urls = [''train-*.tar'']
           then ([demo_sample ''utt1'', demo_sample ''utt2'', demo_sample ''utt3''], None)
           else ([], None)),
      shuffle = (\<lambda>n data. data),
      torchaudio_load = (\<lambda>bytes. ([map (\<lambda>b. real (unat b)) bytes], 16000)),
      PaddedBatch =
        (\<lambda>exs. \<lparr>batch_id = map ex_id exs, batch_sig = ([], []),
                 batch_tokens = (map ex_tokens exs, map (\<lambda>e. 1) exs)\<rparr>)\<rparr>"

definition demo_saved_files :: filesystem where
  "demo_saved_files =
     [''save/label_encoder.txt'' \<mapsto> Label_encoder_file (lab2ind demo_encoder)]"









text \<open>
  A brain without checkpointer where the training loop has it at the end of a validation
  stage: after \<^verbatim>\<open>init_optimizers\<close>, the end of a training stage and \<^verbatim>\<open>on_stage_start\<close>.
\<close>

definition demo_no_checkpointer_brain :: brain where
  "demo_no_checkpointer_brain =
     on_stage_start
       ((init_optimizers (demo_brain False None))\<lparr>train_stats := Some [(''loss'', 3)]\<rparr>)
       VALID 3"

section \<open>Lemmas on the callbacks and the generators\<close>

lemma compute_objectives_TRAIN:
  "compute_objectives self predictions batch TRAIN =
     Inr (ctc_cost (hparams self) (fst predictions) (fst (objective_targets self TRAIN batch))
            (fst (snd predictions)) (snd (objective_targets self TRAIN batch)), self)"
  by (simp add: compute_objectives_def Let_def split: prod.split)

lemma zero_grad_twice:
  "opt_zero_grad mopt (opt_zero_grad wopt g) (opt_over wopt) =
     replicate (length (g (opt_over wopt))) 0"
  "opt_zero_grad mopt (opt_zero_grad wopt g) (opt_over mopt) =
     replicate (length (g (opt_over mopt))) 0"
  by (simp_all add: opt_zero_grad_def map_replicate_const)

text \<open>
  The training loop reaches the end of a validation stage with every attribute that
  \<^verbatim>\<open>on_stage_end\<close> reads in place: \<^verbatim>\<open>init_optimizers\<close> assigns the optimizers, the end
  of the training stage assigns \<^verbatim>\<open>train_stats\<close>, \<^verbatim>\<open>on_stage_start\<close> the accumulators.
\<close>

lemma loop_assigns_attributes:
  assumes "on_stage_end (init_optimizers self) TRAIN train_loss epoch = Inr trained"
    and "stage \<noteq> TRAIN"
  shows "wav2vec_optimizer (on_stage_start trained stage epoch) \<noteq> None \<and>
         model_optimizer (on_stage_start trained stage epoch) \<noteq> None \<and>
         train_stats (on_stage_start trained stage epoch) \<noteq> None \<and>
         cer_metric (on_stage_start trained stage epoch) \<noteq> None \<and>
         wer_metric (on_stage_start trained stage epoch) \<noteq> None \<and>
         (checkpointer (on_stage_start trained stage epoch) = None \<longleftrightarrow> checkpointer self = None)"
  using assms
  by (auto simp add: on_stage_end_def stage_statistics_def init_optimizers_def on_stage_start_def
      bind_err_def Let_def split: option.splits)

lemma evaluate_batch_appends:
  assumes "evaluate_batch sb self batch stage = Inr (loss, self')" and "stage \<noteq> TRAIN"
  shows "\<exists>w c e. wer_metric self = Some w \<and> cer_metric self = Some c \<and> fst e = batch_id batch \<and>
           self' = self\<lparr>wer_metric := Some (w\<lparr>scores := scores w @ [e]\<rparr>),
                        cer_metric := Some (c\<lparr>scores := scores c @ [e]\<rparr>)\<rparr>"
  using assms
  by (auto simp add: evaluate_batch_def compute_objectives_def bind_err_def attr_def Let_def
      metric_append_def split: prod.splits sum.splits option.splits)

lemma evaluate_batches_appends:
  assumes "evaluate_batches sb self batches stage = Inr (losses, self')" and "stage \<noteq> TRAIN"
    and "wer_metric self = Some w" and "cer_metric self = Some c"
  shows "\<exists>entries. map fst entries = map batch_id batches \<and>
           self' = self\<lparr>wer_metric := Some (w\<lparr>scores := scores w @ entries\<rparr>),
                        cer_metric := Some (c\<lparr>scores := scores c @ entries\<rparr>)\<rparr>"
  using assms
proof (induction batches arbitrary: self losses w c)
  case Nil
  then have "self' = self" by simp
  with Nil show ?case by (intro exI[of _ "[]"]) simp
next
  case (Cons batch batches)
  from Cons.prems(1) obtain loss mid rest where
    step: "evaluate_batch sb self batch stage = Inr (loss, mid)" and
    more: "evaluate_batches sb mid batches stage = Inr (rest, self')"
    by (auto simp add: bind_err_def split: sum.splits prod.splits)
  from evaluate_batch_appends[OF step Cons.prems(2)] Cons.prems(3,4) obtain e where
    e: "fst e = batch_id batch" and
    mid: "mid = self\<lparr>wer_metric := Some (w\<lparr>scores := scores w @ [e]\<rparr>),
                      cer_metric := Some (c\<lparr>scores := scores c @ [e]\<rparr>)\<rparr>"
    by auto
  from Cons.IH[OF more Cons.prems(2), of "w\<lparr>scores := scores w @ [e]\<rparr>" "c\<lparr>scores := scores c @ [e]\<rparr>"] mid
  obtain entries where
    es: "map fst entries = map batch_id batches" and
    fin: "self' = mid\<lparr>wer_metric := Some (w\<lparr>scores := scores w @ [e] @ entries\<rparr>),
                      cer_metric := Some (c\<lparr>scores := scores c @ [e] @ entries\<rparr>)\<rparr>"
    by auto
  show ?case
    by (rule exI[of _ "e # entries"]) (simp add: e es fin mid)
qed

lemma group_samples_inv:
  assumes "group_samples n acc xs = (gs, r)" and "0 < n" and "length acc \<le> n"
  shows "list_all (\<lambda>g. length g = n) gs \<and> concat gs @ r = acc @ xs \<and> length r \<le> n \<and>
         (r = [] \<longrightarrow> acc @ xs = [])"
  using assms
proof (induction xs arbitrary: acc gs r)
  case Nil
  then show ?case by auto
next
  case (Cons x xs)
  show ?case
  proof (cases "n \<le> length acc")
    case True
    with Cons.prems obtain gs' where
      rec: "group_samples n [x] xs = (gs', r)" and gs: "gs = acc # gs'"
      by (auto split: prod.splits)
    from Cons.IH[OF rec] Cons.prems(2) have
      "list_all (\<lambda>g. length g = n) gs' \<and> concat gs' @ r = [x] @ xs \<and> length r \<le> n \<and> (r = [] \<longrightarrow> [x] @ xs = [])"
      by simp
    with True Cons.prems(3) gs show ?thesis by auto
  next
    case False
    with Cons.prems have rec: "group_samples n (acc @ [x]) xs = (gs, r)" by simp
    from False have "length (acc @ [x]) \<le> n" by simp
    from Cons.IH[OF rec Cons.prems(2) this] show ?thesis by simp
  qed
qed

lemma batch_groups_full:
  assumes "0 < n"
  shows "list_all (\<lambda>g. length g = n) (batch_groups n False (xs, e)) \<and>
         concat (batch_groups n False (xs, e)) = take (n * length (batch_groups n False (xs, e))) xs \<and>
         (e = None \<longrightarrow> length (batch_groups n False (xs, e)) = length xs div n)"
proof -
  obtain gs r where g: "group_samples n [] xs = (gs, r)" by (cases "group_samples n [] xs")
  from group_samples_inv[OF g assms] have
    all: "list_all (\<lambda>g. length g = n) gs" and cat: "concat gs @ r = xs" and
    len: "length r \<le> n" and emp: "r = [] \<longrightarrow> xs = []"
    by simp_all
  have lc: "length (concat gs) = n * length gs"
    using all by (induction gs) auto
  show ?thesis
  proof (cases "e = None \<and> length r = n")
    case True
    then have bg: "batch_groups n False (xs, e) = gs @ [r]"
      using g assms by (auto simp add: batch_groups_def)
    have "length xs = n * (length gs + 1)"
      using cat lc True by (metis length_append mult_Suc_right Suc_eq_plus1 add.commute)
    then show ?thesis using bg all True cat assms by (simp add: lc)
  next
    case False
    then have bg: "batch_groups n False (xs, e) = gs"
      using g by (auto simp add: batch_groups_def split: option.splits)
    have pre: "concat gs = take (n * length gs) xs"
      using cat lc by (metis append_eq_conv_conj)
    have "e = None \<longrightarrow> length gs = length xs div n"
    proof
      assume "e = None"
      with False len have "length r < n" by simp
      moreover have "length xs = n * length gs + length r"
        using cat lc by (metis length_append)
      ultimately show "length gs = length xs div n" using assms by simp
    qed
    then show ?thesis using bg all pre by auto
  qed
qed











lemma dataio_prepare_streams:
  assumes "dataio_prepare io hp fs = ((train_data, valid_data, test_data, label_encoder), fs')"
  shows "train_data = batched (batch_size hp) (PaddedBatch io) False
           (examples io hp label_encoder (train_shards hp))"
    and "valid_data = batched (batch_size hp) (PaddedBatch io) False
           (examples io hp label_encoder (valid_shards hp))"
    and "test_data = batched (test_batch_size hp) (PaddedBatch io) False
           (examples io hp label_encoder (test_shards hp))"
    and "(fs', label_encoder) =
           load_or_create fs (os_path_join (save_folder hp) ''label_encoder.txt'') []
             [(''blank_label'', blank_index hp)]"
  using assms
  by (auto simp add: dataio_prepare_def examples_def Let_def split: prod.splits)

lemma exactly_batched_groups:
  "0 < n \<Longrightarrow> exactly_batched n data (batch_groups n False data)"
proof -
  assume n: "0 < n"
  obtain xs e where d: "data = (xs, e)" by (cases data)
  from batch_groups_full[OF n, of xs e] show ?thesis
    by (auto simp add: exactly_batched_def d)
qed

lemma label_encoder_ignores_shards:
  "snd (snd (snd (fst (dataio_prepare io hp fs)))) =
     snd (load_or_create fs (os_path_join (save_folder hp) ''label_encoder.txt'') []
            [(''blank_label'', blank_index hp)]) \<and>
   snd (dataio_prepare io hp fs) =
     fst (load_or_create fs (os_path_join (save_folder hp) ''label_encoder.txt'') []
            [(''blank_label'', blank_index hp)])"
  by (simp add: dataio_prepare_def Let_def split: prod.splits)

section \<open>The claims\<close>

text \<open>
  C1. The claim: \<^verbatim>\<open>dataio_prepare\<close> builds the label encoder from the transcripts of
  the corpus, persists it to \<^verbatim>\<open>label_encoder.txt\<close> in the save folder and loads it from
  there on a restart, with a blank symbol reserved at \<^verbatim>\<open>blank_index\<close>. The code gives
  \<^verbatim>\<open>load_or_create\<close> the path and the special labels only: the list \<^verbatim>\<open>datasets\<close> is
  built and never passed. With an empty save folder and three training samples whose
  transcript is \<^verbatim>\<open>a a\<close>, the encoder that comes back and the file that is written hold
  the blank symbol alone, and the training stream ends on the first sample with
  \<^verbatim>\<open>KeyError\<close>; given the transcript, \<^verbatim>\<open>load_or_create\<close> would have mapped both
  characters.
\<close>

theorem label_encoder_not_built_from_corpus:
  "fst (WebDataset (demo_lib 1) (glob (demo_lib 1) (train_shards demo_hparams)) ''cache'') =
     [demo_sample ''utt1'', demo_sample ''utt2'', demo_sample ''utt3''] \<and>
   utf8_decode (sample_text (demo_sample ''utt1'')) = Inr [97, 32, 97] \<and>
   dataio_prepare (demo_lib 1) demo_hparams Map.empty =
     ((([], Some (KeyError ''label'')), ([], None), ([], None), \<lparr>lab2ind = [(blank_label, 0)]\<rparr>),
      [''save/label_encoder.txt'' \<mapsto> Label_encoder_file [(blank_label, 0)]]) \<and>
   snd (load_or_create Map.empty ''save/label_encoder.txt'' [[[97], [32], [97]]] [(''blank_label'', 0)]) =
     \<lparr>lab2ind = [(blank_label, 0), ([97], 1), ([32], 2)]\<rparr>"
  by (simp add: dataio_prepare_def demo_lib_def demo_hparams_def demo_sample_def Let_def
      shard_stream_def load_or_create_def handle_special_labels_def os_path_join_def
      map_iter_def batched_def batch_groups_def shard_extractor_def bind_err_def
      encode_sequence_def encode_label_def next_index_def blank_label_def chain_def)

text \<open>
  C2. The claim: every call of \<^verbatim>\<open>on_stage_end\<close> with stage VALID anneals both learning
  rates and triggers a checkpoint save. A brain may have no checkpointer
  (\<^verbatim>\<open>init_optimizers\<close> asks for it), and \<^verbatim>\<open>on_stage_end\<close> does not ask: in the brain
  without checkpointer that the loop leaves after \<^verbatim>\<open>init_optimizers\<close>, the end of the
  training stage and \<^verbatim>\<open>on_stage_start\<close>, the call raises \<^verbatim>\<open>AttributeError\<close> and nothing
  is saved.
\<close>

theorem valid_stage_end_no_checkpointer_counterexample:
  "on_stage_end (init_optimizers (demo_brain False None)) TRAIN 3 3 =
     Inr ((init_optimizers (demo_brain False None))\<lparr>train_stats := Some [(''loss'', 3)]\<rparr>) \<and>
   checkpointer demo_no_checkpointer_brain = None \<and>
   on_stage_end demo_no_checkpointer_brain VALID 2 3 = Inl (AttributeError ''checkpointer'')"
  by (simp add: demo_no_checkpointer_brain_def on_stage_end_def stage_statistics_def
      on_stage_start_def init_optimizers_def demo_brain_def demo_hparams_def bind_err_def
      attr_def dict_get_def scheduler_call_def log_stats_def update_learning_rate_def Let_def)

text \<open>
  C2, amended. At the end of a validation stage, in a brain that has a checkpointer and
  what the loop has assigned by then (its accumulators, its two optimizers, the statistics
  of the training stage), \<^verbatim>\<open>on_stage_end\<close> returns normally; both schedulers have been
  called on the stage loss, each optimizer holds the new learning rate of its scheduler,
  and the checkpointer has received one more save request, whose metadata is the word
  error rate of the stage and whose \<^verbatim>\<open>min_keys\<close> is \<^verbatim>\<open>["WER"]\<close>.
\<close>

theorem valid_stage_end_anneals_and_saves:
  assumes "cer_metric self = Some cer" and "wer_metric self = Some wer"
    and "model_optimizer self = Some mopt" and "wav2vec_optimizer self = Some wopt"
    and "train_stats self = Some tstats" and "checkpointer self = Some ckpt"
  shows "\<exists>self'. on_stage_end self VALID stage_loss epoch = Inr self' \<and>
     lr_annealing_model (hparams self') =
       snd (scheduler_call (lr_annealing_model (hparams self)) stage_loss) \<and>
     lr_annealing_wav2vec (hparams self') =
       snd (scheduler_call (lr_annealing_wav2vec (hparams self)) stage_loss) \<and>
     model_optimizer self' =
       Some (mopt\<lparr>opt_lr :=
               snd (fst (scheduler_call (lr_annealing_model (hparams self)) stage_loss))\<rparr>) \<and>
     wav2vec_optimizer self' =
       Some (wopt\<lparr>opt_lr :=
               snd (fst (scheduler_call (lr_annealing_wav2vec (hparams self)) stage_loss))\<rparr>) \<and>
     checkpointer self' =
       Some (ckpt\<lparr>save_requests := save_requests ckpt @
               [\<lparr>meta = [(''WER'', summarize wer ''error_rate'')], min_keys = [''WER'']\<rparr>]\<rparr>)"
  using assms
  by (simp add: on_stage_end_def stage_statistics_def bind_err_def attr_def dict_get_def Let_def
      log_stats_def update_learning_rate_def save_and_keep_only_def split: prod.split)

theorem valid_stage_end_anneals_and_saves_witness:
  "cer_metric demo_ready_brain = Some demo_stats \<and>
   wer_metric demo_ready_brain = Some demo_stats \<and>
   train_stats demo_ready_brain = Some [(''loss'', 3)] \<and>
   (\<exists>self'. on_stage_end demo_ready_brain VALID 2 3 = Inr self' \<and>
      map_option opt_lr (model_optimizer self') = Some (1 / 2) \<and>
      map_option opt_lr (wav2vec_optimizer self') = Some 1 \<and>
      map_option save_requests (checkpointer self') =
        Some [\<lparr>meta = [(''WER'', 1)], min_keys = [''WER'']\<rparr>])"
proof -
  have c: "cer_metric demo_ready_brain = Some demo_stats"
    and w: "wer_metric demo_ready_brain = Some demo_stats"
    and m: "model_optimizer demo_ready_brain =
              Some (construct_optimizer (demo_opt_class 1) Model_parameters)"
    and v: "wav2vec_optimizer demo_ready_brain =
              Some (construct_optimizer (demo_opt_class 4) Wav2vec2_parameters)"
    and t: "train_stats demo_ready_brain = Some [(''loss'', 3)]"
    and k: "checkpointer demo_ready_brain =
              Some (add_recoverable
                      (add_recoverable demo_checkpointer ''wav2vec_opt''
                         (Optimizer_object (construct_optimizer (demo_opt_class 4) Wav2vec2_parameters)))
                      ''modelopt''
                      (Optimizer_object (construct_optimizer (demo_opt_class 1) Model_parameters)))"
    by (simp_all add: demo_ready_brain_def init_optimizers_def demo_brain_def demo_hparams_def
        Let_def)
  have h: "hparams demo_ready_brain = demo_hparams"
    by (simp add: demo_ready_brain_def init_optimizers_def demo_brain_def Let_def)
  from valid_stage_end_anneals_and_saves[OF c w m v t k, of 2 3] c w t show ?thesis
    by (auto simp add: h demo_hparams_def scheduler_call_def Let_def summarize_def demo_stats_def
        demo_metric_class_def add_recoverable_def demo_checkpointer_def)
qed

text \<open>
  C3. Outside training, \<^verbatim>\<open>compute_forward\<close> returns the log-probabilities of the
  waveforms of the batch as they are, with their lengths, and the loss that
  \<^verbatim>\<open>compute_objectives\<close> returns is computed against the targets as they are. In
  training, when the modules have \<^verbatim>\<open>env_corrupt\<close>, \<^verbatim>\<open>compute_forward\<close> returns the
  log-probabilities of the waveforms followed by their corrupted copy (after the
  augmentation, if one is configured) with the lengths twice, and \<^verbatim>\<open>compute_objectives\<close>
  computes the loss against the targets twice and their lengths twice; when there is no
  \<^verbatim>\<open>env_corrupt\<close>, nothing is appended on either side.
\<close>

theorem augmentation_only_in_training:
  "(stage \<noteq> TRAIN \<longrightarrow>
      forward_inputs self stage (batch_sig batch) = batch_sig batch \<and>
      objective_targets self stage batch = batch_tokens batch \<and>
      compute_forward sb self batch stage =
        (let probabilities =
               log_softmax (hparams self) (ctc_lin (modules self) (weights self)
                 (enc (modules self) (weights self)
                   (wav2vec2 (modules self) (weights self) (fst (batch_sig batch)))))
         in (probabilities, snd (batch_sig batch),
             Some (ctc_greedy_decode sb probabilities (snd (batch_sig batch))
                     (blank_index (hparams self))))) \<and>
      (compute_objectives self (p_ctc, lens, decoded) batch stage = Inr (loss, self') \<longrightarrow>
         loss = ctc_cost (hparams self) p_ctc (fst (batch_tokens batch)) lens
                  (snd (batch_tokens batch)))) \<and>
   (env_corrupt (modules self) = Some corrupt \<and> batch_sig batch = (wavs, wav_lens) \<and>
    batch_tokens batch = (tokens, tokens_lens) \<longrightarrow>
      forward_inputs self TRAIN (wavs, wav_lens) =
        (case augmentation (hparams self) of
           None \<Rightarrow> wavs @ corrupt wavs wav_lens
         | Some augment \<Rightarrow> augment (wavs @ corrupt wavs wav_lens) (wav_lens @ wav_lens),
         wav_lens @ wav_lens) \<and>
      objective_targets self TRAIN batch = (tokens @ tokens, tokens_lens @ tokens_lens) \<and>
      compute_forward sb self batch TRAIN =
        (log_softmax (hparams self) (ctc_lin (modules self) (weights self)
           (enc (modules self) (weights self)
             (wav2vec2 (modules self) (weights self)
                (case augmentation (hparams self) of
                   None \<Rightarrow> wavs @ corrupt wavs wav_lens
                 | Some augment \<Rightarrow>
                     augment (wavs @ corrupt wavs wav_lens) (wav_lens @ wav_lens))))),
         wav_lens @ wav_lens, None) \<and>
      compute_objectives self (p_ctc, lens, decoded) batch TRAIN =
        Inr (ctc_cost (hparams self) p_ctc (tokens @ tokens) lens (tokens_lens @ tokens_lens),
             self)) \<and>
   (env_corrupt (modules self) = None \<and> batch_sig batch = (wavs, wav_lens) \<and>
    batch_tokens batch = (tokens, tokens_lens) \<longrightarrow>
      forward_inputs self TRAIN (wavs, wav_lens) =
        (case augmentation (hparams self) of
           None \<Rightarrow> wavs
         | Some augment \<Rightarrow> augment wavs wav_lens,
         wav_lens) \<and>
      objective_targets self TRAIN batch = (tokens, tokens_lens) \<and>
      compute_forward sb self batch TRAIN =
        (log_softmax (hparams self) (ctc_lin (modules self) (weights self)
           (enc (modules self) (weights self)
             (wav2vec2 (modules self) (weights self)
                (case augmentation (hparams self) of
                   None \<Rightarrow> wavs
                 | Some augment \<Rightarrow> augment wavs wav_lens)))),
         wav_lens, None) \<and>
      compute_objectives self (p_ctc, lens, decoded) batch TRAIN =
        Inr (ctc_cost (hparams self) p_ctc tokens lens tokens_lens, self))"
proof -
  have eval: "stage \<noteq> TRAIN \<longrightarrow>
      forward_inputs self stage (batch_sig batch) = batch_sig batch \<and>
      objective_targets self stage batch = batch_tokens batch \<and>
      compute_forward sb self batch stage =
        (let probabilities =
               log_softmax (hparams self) (ctc_lin (modules self) (weights self)
                 (enc (modules self) (weights self)
                   (wav2vec2 (modules self) (weights self) (fst (batch_sig batch)))))
         in (probabilities, snd (batch_sig batch),
             Some (ctc_greedy_decode sb probabilities (snd (batch_sig batch))
                     (blank_index (hparams self))))) \<and>
      (compute_objectives self (p_ctc, lens, decoded) batch stage = Inr (loss, self') \<longrightarrow>
         loss = ctc_cost (hparams self) p_ctc (fst (batch_tokens batch)) lens
                  (snd (batch_tokens batch)))"
    by (auto simp add: forward_inputs_def objective_targets_def compute_forward_def
        compute_objectives_def bind_err_def Let_def split: prod.splits sum.splits)
  have noisy: "env_corrupt (modules self) = Some corrupt \<and> batch_sig batch = (wavs, wav_lens) \<and>
    batch_tokens batch = (tokens, tokens_lens) \<longrightarrow>
      forward_inputs self TRAIN (wavs, wav_lens) =
        (case augmentation (hparams self) of
           None \<Rightarrow> wavs @ corrupt wavs wav_lens
         | Some augment \<Rightarrow> augment (wavs @ corrupt wavs wav_lens) (wav_lens @ wav_lens),
         wav_lens @ wav_lens) \<and>
      objective_targets self TRAIN batch = (tokens @ tokens, tokens_lens @ tokens_lens) \<and>
      compute_forward sb self batch TRAIN =
        (log_softmax (hparams self) (ctc_lin (modules self) (weights self)
           (enc (modules self) (weights self)
             (wav2vec2 (modules self) (weights self)
                (case augmentation (hparams self) of
                   None \<Rightarrow> wavs @ corrupt wavs wav_lens
                 | Some augment \<Rightarrow>
                     augment (wavs @ corrupt wavs wav_lens) (wav_lens @ wav_lens))))),
         wav_lens @ wav_lens, None) \<and>
      compute_objectives self (p_ctc, lens, decoded) batch TRAIN =
        Inr (ctc_cost (hparams self) p_ctc (tokens @ tokens) lens (tokens_lens @ tokens_lens),
             self)"
    by (auto simp add: forward_inputs_def objective_targets_def compute_forward_def
        compute_objectives_TRAIN Let_def split: option.splits)
  have plain: "env_corrupt (modules self) = None \<and> batch_sig batch = (wavs, wav_lens) \<and>
    batch_tokens batch = (tokens, tokens_lens) \<longrightarrow>
      forward_inputs self TRAIN (wavs, wav_lens) =
        (case augmentation (hparams self) of
           None \<Rightarrow> wavs
         | Some augment \<Rightarrow> augment wavs wav_lens,
         wav_lens) \<and>
      objective_targets self TRAIN batch = (tokens, tokens_lens) \<and>
      compute_forward sb self batch TRAIN =
        (log_softmax (hparams self) (ctc_lin (modules self) (weights self)
           (enc (modules self) (weights self)
             (wav2vec2 (modules self) (weights self)
                (case augmentation (hparams self) of
                   None \<Rightarrow> wavs
                 | Some augment \<Rightarrow> augment wavs wav_lens)))),
         wav_lens, None) \<and>
      compute_objectives self (p_ctc, lens, decoded) batch TRAIN =
        Inr (ctc_cost (hparams self) p_ctc tokens lens tokens_lens, self)"
    by (auto simp add: forward_inputs_def objective_targets_def compute_forward_def
        compute_objectives_TRAIN Let_def split: option.splits)
  show ?thesis
    by (rule conjI[OF eval conjI[OF noisy plain]])
qed

theorem augmentation_only_in_training_witness:
  "VALID \<noteq> TRAIN \<and>
   compute_forward (demo_lib 1) (demo_brain True None) demo_batch VALID =
     ([[[1], [2]], [[3], [0]]], [1, 1 / 2], Some [[1, 2, 1], [1, 2, 1]]) \<and>
   (\<exists>self'. compute_objectives demo_ready_brain ([], [], Some [[1, 2, 1], [1, 2, 1]])
              demo_batch VALID = Inr (2, self')) \<and>
   env_corrupt (modules (demo_brain True None)) =
     Some (\<lambda>wavs wav_lens. map (map (\<lambda>s. s + 1)) wavs) \<and>
   compute_forward (demo_lib 1) (demo_brain True None) demo_batch TRAIN =
     ([[[1], [2]], [[3], [0]], [[2], [3]], [[4], [1]]], [1, 1 / 2, 1, 1 / 2], None) \<and>
   compute_objectives (demo_brain True None) ([], [], None) demo_batch TRAIN =
     Inr (4, demo_brain True None) \<and>
   env_corrupt (modules (demo_brain False None)) = None \<and>
   compute_forward (demo_lib 1) (demo_brain False None) demo_batch TRAIN =
     ([[[1], [2]], [[3], [0]]], [1, 1 / 2], None) \<and>
   compute_objectives (demo_brain False None) ([], [], None) demo_batch TRAIN =
     Inr (2, demo_brain False None)"
proof -
  have noisy: "env_corrupt (modules (demo_brain True None)) =
                 Some (\<lambda>wavs wav_lens. map (map (\<lambda>s. s + 1)) wavs)"
    and plain: "env_corrupt (modules (demo_brain False None)) = None"
    and sig: "batch_sig demo_batch = ([[1, 2], [3, 0]], [1, 1 / 2])"
    and tok: "batch_tokens demo_batch = ([[1, 2, 1], [1, 0, 0]], [1, 1 / 3])"
    by (simp_all add: demo_brain_def demo_modules_def demo_batch_def)
  have net: "augmentation (hparams (demo_brain b None)) = None"
    "log_softmax (hparams (demo_brain b None)) = (\<lambda>x. x)"
    "ctc_cost (hparams (demo_brain b None)) = (\<lambda>p t wl tl. real (length t))"
    "blank_index (hparams (demo_brain b None)) = 0"
    "wav2vec2 (modules (demo_brain b None)) = (\<lambda>w x. map (map (\<lambda>s. [s])) x)"
    "enc (modules (demo_brain b None)) = (\<lambda>w f. f)"
    "ctc_lin (modules (demo_brain b None)) = (\<lambda>w f. f)" for b
    by (simp_all add: demo_brain_def demo_modules_def demo_hparams_def)
  have t: "tokenizer demo_ready_brain = Some demo_encoder"
    and w: "wer_metric demo_ready_brain = Some demo_stats"
    and c: "cer_metric demo_ready_brain = Some demo_stats"
    and e: "env_corrupt (modules demo_ready_brain) \<noteq> None"
    and h: "ctc_cost (hparams demo_ready_brain) = (\<lambda>p t wl tl. real (length t))"
    by (simp_all add: demo_ready_brain_def init_optimizers_def demo_brain_def demo_modules_def
        demo_hparams_def Let_def)
  have p: "predicted_words (Some demo_encoder) (Some [[1, 2, 1], [1, 2, 1]]) =
             Inr [[[97], [97]], [[97], [97]]]"
    by (simp add: predicted_words_def decode_words_def decode_ndim_def decode_index_def
        bind_err_def attr_def demo_encoder_def space_def blank_label_def)
  have g: "target_words (Some demo_encoder) [[1, 2, 1], [1, 0, 0]] [1, 1 / 3] =
             Inr [[[97], [97]], [[97]]]"
    by (simp add: target_words_def decode_words_def decode_ndim_def decode_index_def
        bind_err_def attr_def demo_encoder_def space_def blank_label_def
        py_int_def slice_to_def)
  have run: "\<exists>loss self'. compute_objectives demo_ready_brain ([], [], Some [[1, 2, 1], [1, 2, 1]])
                            demo_batch VALID = Inr (loss, self')"
    by (simp add: compute_objectives_def objective_targets_def bind_err_def attr_def Let_def
        t w c p g tok)
  then obtain loss self' where
    r: "compute_objectives demo_ready_brain ([], [], Some [[1, 2, 1], [1, 2, 1]])
          demo_batch VALID = Inr (loss, self')"
    by blast
  from augmentation_only_in_training
         [where stage = VALID and self = demo_ready_brain and batch = demo_batch
            and p_ctc = "[]" and lens = "[]" and decoded = "Some [[1, 2, 1], [1, 2, 1]]"
            and loss = loss and self' = self'] r
  have "loss = 2" by (simp add: h tok)
  with r have valid_loss: "\<exists>self'. compute_objectives demo_ready_brain
      ([], [], Some [[1, 2, 1], [1, 2, 1]]) demo_batch VALID = Inr (2, self')"
    by blast
  from augmentation_only_in_training
         [where stage = VALID and self = "demo_brain True None" and batch = demo_batch
            and sb = "demo_lib 1" and wavs = "[[1, 2], [3, 0]]" and wav_lens = "[1, 1 / 2]"
            and tokens = "[[1, 2, 1], [1, 0, 0]]" and tokens_lens = "[1, 1 / 3]"
            and corrupt = "\<lambda>wavs wav_lens. map (map (\<lambda>s. s + 1)) wavs"
            and p_ctc = "[]" and lens = "[]" and decoded = None]
       augmentation_only_in_training
         [where stage = VALID and self = "demo_brain False None" and batch = demo_batch
            and sb = "demo_lib 1" and wavs = "[[1, 2], [3, 0]]" and wav_lens = "[1, 1 / 2]"
            and tokens = "[[1, 2, 1], [1, 0, 0]]" and tokens_lens = "[1, 1 / 3]"
            and p_ctc = "[]" and lens = "[]" and decoded = None]
       noisy plain valid_loss
  show ?thesis
    by (simp add: net sig tok demo_lib_def)
qed

text \<open>
  C4. Outside training, the third component of what \<^verbatim>\<open>compute_forward\<close> returns is the
  greedy decoding of the log-probabilities it returns, with the configured blank index;
  and when both accumulators exist and the predicted and the target tokens decode to
  words, \<^verbatim>\<open>compute_objectives\<close> returns the loss and appends the ids, the predicted
  words and the target words of the batch to the word-error-rate and to the
  character-error-rate accumulator. In training the third component is \<^verbatim>\<open>None\<close> and
  \<^verbatim>\<open>compute_objectives\<close> returns the brain as it was.
\<close>

theorem decoding_and_error_rates_outside_training:
  "(stage \<noteq> TRAIN \<longrightarrow>
      snd (snd (compute_forward sb self batch stage)) =
        Some (ctc_greedy_decode sb (fst (compute_forward sb self batch stage))
                (fst (snd (compute_forward sb self batch stage))) (blank_index (hparams self)))) \<and>
   (stage \<noteq> TRAIN \<and> wer_metric self = Some wer \<and> cer_metric self = Some cer \<and>
    predicted_words (tokenizer self) predicted_tokens = Inr predicted \<and>
    target_words (tokenizer self) (fst (batch_tokens batch)) (snd (batch_tokens batch)) =
      Inr target \<longrightarrow>
      compute_objectives self (p_ctc, wav_lens, predicted_tokens) batch stage =
        Inr (ctc_cost (hparams self) p_ctc (fst (batch_tokens batch)) wav_lens
               (snd (batch_tokens batch)),
             self\<lparr>wer_metric := Some (metric_append wer (batch_id batch) predicted target),
                  cer_metric := Some (metric_append cer (batch_id batch) predicted target)\<rparr>)) \<and>
   snd (snd (compute_forward sb self batch TRAIN)) = None \<and>
   (\<exists>loss. compute_objectives self predictions batch TRAIN = Inr (loss, self))"
  by (auto simp add: compute_forward_def compute_objectives_def objective_targets_def
      bind_err_def attr_def Let_def split: prod.split)

theorem decoding_and_error_rates_outside_training_witness:
  "TEST \<noteq> TRAIN \<and>
   wer_metric demo_ready_brain = Some demo_stats \<and>
   cer_metric demo_ready_brain = Some demo_stats \<and>
   snd (snd (compute_forward (demo_lib 1) demo_ready_brain demo_batch TEST)) =
     Some [[1, 2, 1], [1, 2, 1]] \<and>
   predicted_words (tokenizer demo_ready_brain) (Some [[1, 2, 1], [1, 2, 1]]) =
     Inr [[[97], [97]], [[97], [97]]] \<and>
   target_words (tokenizer demo_ready_brain) (fst (batch_tokens demo_batch))
     (snd (batch_tokens demo_batch)) = Inr [[[97], [97]], [[97]]] \<and>
   compute_objectives demo_ready_brain ([], [], Some [[1, 2, 1], [1, 2, 1]]) demo_batch TEST =
     Inr (2, demo_ready_brain
       \<lparr>wer_metric := Some (metric_append demo_stats [''utt1'', ''utt2'']
                             [[[97], [97]], [[97], [97]]] [[[97], [97]], [[97]]]),
        cer_metric := Some (metric_append demo_stats [''utt1'', ''utt2'']
                             [[[97], [97]], [[97], [97]]] [[[97], [97]], [[97]]])\<rparr>)"
proof -
  have w: "wer_metric demo_ready_brain = Some demo_stats"
    and c: "cer_metric demo_ready_brain = Some demo_stats"
    and t: "tokenizer demo_ready_brain = Some demo_encoder"
    and h: "hparams demo_ready_brain = demo_hparams"
    by (simp_all add: demo_ready_brain_def init_optimizers_def demo_brain_def Let_def)
  have p: "predicted_words (tokenizer demo_ready_brain) (Some [[1, 2, 1], [1, 2, 1]]) =
             Inr [[[97], [97]], [[97], [97]]]"
    by (simp add: t predicted_words_def decode_words_def decode_ndim_def decode_index_def
        bind_err_def attr_def demo_encoder_def space_def blank_label_def)
  have g: "target_words (tokenizer demo_ready_brain) (fst (batch_tokens demo_batch))
             (snd (batch_tokens demo_batch)) = Inr [[[97], [97]], [[97]]]"
    by (simp add: t target_words_def decode_words_def decode_ndim_def decode_index_def
        bind_err_def attr_def demo_encoder_def space_def blank_label_def demo_batch_def
        py_int_def slice_to_def)
  from decoding_and_error_rates_outside_training
         [of TEST "demo_lib 1" demo_ready_brain demo_batch demo_stats demo_stats
             "Some [[1, 2, 1], [1, 2, 1]]" "[[[97], [97]], [[97], [97]]]"
             "[[[97], [97]], [[97]]]" "[]" "[]"]
       w c p g
  show ?thesis
    by (simp add: h demo_hparams_def demo_lib_def demo_batch_def compute_forward_def
        forward_inputs_def demo_ready_brain_def init_optimizers_def demo_brain_def
        demo_modules_def Let_def)
qed

text \<open>
  C5. At the end of a test stage, in a brain that has its accumulators and whose
  \<^verbatim>\<open>hparams.wer_file\<close> is set, \<^verbatim>\<open>on_stage_end\<close> returns normally and the file at that
  path holds what \<^verbatim>\<open>write_stats\<close> of the word-error-rate accumulator writes, every other
  file being as before; and the main program sets \<^verbatim>\<open>hparams.wer_file\<close> to
  \<^verbatim>\<open>wer_test.txt\<close> in the output folder before it evaluates.
\<close>

theorem test_stage_end_writes_wer_file:
  "(cer_metric self = Some cer \<and> wer_metric self = Some wer \<and>
    wer_file (hparams self) = Some path \<longrightarrow>
     (\<exists>self'. on_stage_end self TEST stage_loss epoch = Inr self' \<and>
        files self' = (files self)(path \<mapsto> Text_file (write_stats wer)))) \<and>
   wer_file (hparams (set_wer_file asr_brain)) =
     Some (os_path_join (output_folder (hparams asr_brain)) ''wer_test.txt'')"
  by (auto simp add: on_stage_end_def stage_statistics_def bind_err_def attr_def Let_def
      log_stats_def set_wer_file_def split: prod.split)

theorem test_stage_end_writes_wer_file_witness:
  "cer_metric (set_wer_file demo_ready_brain) = Some demo_stats \<and>
   wer_metric (set_wer_file demo_ready_brain) = Some demo_stats \<and>
   wer_file (hparams (set_wer_file demo_ready_brain)) = Some ''out/wer_test.txt'' \<and>
   (\<exists>self'. on_stage_end (set_wer_file demo_ready_brain) TEST 2 0 = Inr self' \<and>
      files self' ''out/wer_test.txt'' = Some (Text_file ''u''))"
proof -
  have c: "cer_metric (set_wer_file demo_ready_brain) = Some demo_stats"
    and w: "wer_metric (set_wer_file demo_ready_brain) = Some demo_stats"
    and f: "wer_file (hparams (set_wer_file demo_ready_brain)) = Some ''out/wer_test.txt''"
    by (simp_all add: set_wer_file_def demo_ready_brain_def init_optimizers_def demo_brain_def
        demo_hparams_def os_path_join_def Let_def)
  from test_stage_end_writes_wer_file
         [of "set_wer_file demo_ready_brain" demo_stats demo_stats "''out/wer_test.txt''" 2 0
             demo_ready_brain]
       c w f
  show ?thesis
    by (auto simp add: write_stats_def demo_stats_def demo_metric_class_def)
qed

text \<open>
  C6. The claim: \<^verbatim>\<open>init_optimizers\<close> registers both optimizers with the checkpointer
  whenever it constructs them. A brain may have no checkpointer, and the code asks
  (\<^verbatim>\<open>if self.checkpointer is not None\<close>): without one, both optimizers are constructed
  and nothing is registered.
\<close>

theorem init_optimizers_no_checkpointer_counterexample:
  "wav2vec_optimizer (init_optimizers (demo_brain False None)) \<noteq> None \<and>
   model_optimizer (init_optimizers (demo_brain False None)) \<noteq> None \<and>
   checkpointer (init_optimizers (demo_brain False None)) = None"
  by (simp add: init_optimizers_def demo_brain_def Let_def)

text \<open>
  C6, amended. \<^verbatim>\<open>init_optimizers\<close> constructs two optimizers, one of the class
  \<^verbatim>\<open>wav2vec_opt_class\<close> over the parameters of the wav2vec2 encoder and one of the class
  \<^verbatim>\<open>model_opt_class\<close> over the parameters of \<^verbatim>\<open>hparams.model\<close>; when the brain has a
  checkpointer it registers them there under the names \<^verbatim>\<open>wav2vec_opt\<close> and
  \<^verbatim>\<open>modelopt\<close>, and when it has none it registers nothing.
\<close>

theorem init_optimizers_registers_if_checkpointer:
  "wav2vec_optimizer (init_optimizers self) =
     Some (construct_optimizer (wav2vec_opt_class (hparams self)) Wav2vec2_parameters) \<and>
   model_optimizer (init_optimizers self) =
     Some (construct_optimizer (model_opt_class (hparams self)) Model_parameters) \<and>
   checkpointer (init_optimizers self) =
     (case checkpointer self of
        None \<Rightarrow> None
      | Some ckpt \<Rightarrow>
          Some (ckpt\<lparr>recoverables := (recoverables ckpt)
            (''wav2vec_opt'' \<mapsto> Optimizer_object
               (construct_optimizer (wav2vec_opt_class (hparams self)) Wav2vec2_parameters),
             ''modelopt'' \<mapsto> Optimizer_object
               (construct_optimizer (model_opt_class (hparams self)) Model_parameters))\<rparr>))"
  by (simp add: init_optimizers_def add_recoverable_def Let_def split: option.split)

theorem init_optimizers_registers_if_checkpointer_witness:
  "map_option opt_over (wav2vec_optimizer (init_optimizers (demo_brain True (Some demo_checkpointer)))) =
     Some Wav2vec2_parameters \<and>
   map_option opt_over (model_optimizer (init_optimizers (demo_brain True (Some demo_checkpointer)))) =
     Some Model_parameters \<and>
   map_option (\<lambda>c. dom (recoverables c))
     (checkpointer (init_optimizers (demo_brain True (Some demo_checkpointer)))) =
     Some {''wav2vec_opt'', ''modelopt''}"
  using init_optimizers_registers_if_checkpointer [of "demo_brain True (Some demo_checkpointer)"]
  by (auto simp add: demo_brain_def demo_checkpointer_def construct_optimizer_def)




text \<open>
  C8. In a brain that has its two optimizers, \<^verbatim>\<open>fit_batch\<close> returns the loss; the
  parameters afterwards are those before the batch when \<^verbatim>\<open>check_gradients\<close> fails, and
  the steps of the wav2vec2 optimizer and then of the model optimizer on them when it
  succeeds; in either case the gradients of the parameters of both optimizers are zero.
\<close>

theorem fit_batch_steps_only_if_check:
  assumes "wav2vec_optimizer self = Some wopt" and "model_optimizer self = Some mopt"
  shows "\<exists>loss self'. fit_batch sb self batch = Inr (loss, self') \<and>
           (let (ok, g) = check_gradients sb loss (backward sb (weights self) batch (grads self))
            in weights self' =
                 (if ok then opt_step mopt (opt_step wopt (weights self) g) g
                  else weights self) \<and>
               grads self' (opt_over wopt) = replicate (length (g (opt_over wopt))) 0 \<and>
               grads self' (opt_over mopt) = replicate (length (g (opt_over mopt))) 0)"
  using assms
  by (auto simp add: fit_batch_def compute_objectives_TRAIN bind_err_def attr_def Let_def
      zero_grad_twice split: prod.split)

theorem fit_batch_steps_only_if_check_witness:
  "wav2vec_optimizer demo_ready_brain =
     Some (construct_optimizer (demo_opt_class 4) Wav2vec2_parameters) \<and>
   model_optimizer demo_ready_brain =
     Some (construct_optimizer (demo_opt_class 1) Model_parameters) \<and>
   (\<exists>self'. fit_batch (demo_lib 1) demo_ready_brain demo_batch = Inr (4, self') \<and>
      weights self' = weights demo_ready_brain \<and>
      grads self' Wav2vec2_parameters = [0] \<and> grads self' Model_parameters = [0]) \<and>
   (\<exists>self'. fit_batch (demo_lib 10) demo_ready_brain demo_batch = Inr (4, self') \<and>
      weights self' Wav2vec2_parameters = [- 3] \<and> weights self' Model_parameters = [0] \<and>
      grads self' Wav2vec2_parameters = [0] \<and> grads self' Model_parameters = [0])"
proof -
  have v: "wav2vec_optimizer demo_ready_brain =
             Some (construct_optimizer (demo_opt_class 4) Wav2vec2_parameters)"
    and m: "model_optimizer demo_ready_brain =
             Some (construct_optimizer (demo_opt_class 1) Model_parameters)"
    by (simp_all add: demo_ready_brain_def init_optimizers_def demo_brain_def demo_hparams_def
        Let_def)
  have loss: "fst (projr (fit_batch (demo_lib b) demo_ready_brain demo_batch)) = 4" for b
    by (simp add: fit_batch_def compute_objectives_TRAIN bind_err_def attr_def Let_def v m
        demo_ready_brain_def init_optimizers_def demo_brain_def demo_hparams_def
        objective_targets_def demo_modules_def demo_batch_def demo_lib_def split: prod.split)
  have st: "weights demo_ready_brain = (\<lambda>g. [1])" "grads demo_ready_brain = (\<lambda>g. [0])"
    by (simp_all add: demo_ready_brain_def init_optimizers_def demo_brain_def Let_def)
  from fit_batch_steps_only_if_check[OF v m, of "demo_lib 1" demo_batch] loss[of 1]
  have fails: "\<exists>self'. fit_batch (demo_lib 1) demo_ready_brain demo_batch = Inr (4, self') \<and>
      weights self' = weights demo_ready_brain \<and>
      grads self' Wav2vec2_parameters = [0] \<and> grads self' Model_parameters = [0]"
    by (auto simp add: demo_lib_def st construct_optimizer_def)
  from fit_batch_steps_only_if_check[OF v m, of "demo_lib 10" demo_batch] loss[of 10]
  have passes: "\<exists>self'. fit_batch (demo_lib 10) demo_ready_brain demo_batch = Inr (4, self') \<and>
      weights self' Wav2vec2_parameters = [- 3] \<and> weights self' Model_parameters = [0] \<and>
      grads self' Wav2vec2_parameters = [0] \<and> grads self' Model_parameters = [0]"
    by (auto simp add: demo_lib_def st construct_optimizer_def opt_step_def demo_opt_class_def)
  from v m fails passes show ?thesis by blast
qed

text \<open>
  C9. When the two batch sizes are positive, each of the three datasets that
  \<^verbatim>\<open>dataio_prepare\<close> returns yields the collations of groups of exactly the configured
  number of examples (\<^verbatim>\<open>batch_size\<close> for training and validation, \<^verbatim>\<open>test_batch_size\<close> for
  test); the groups are the examples of the stream in order, and when the stream ends
  without an exception the examples after the last full group, fewer than a batch, are in
  no group.
\<close>

theorem batches_have_configured_size:
  assumes "dataio_prepare io hp fs = ((train_data, valid_data, test_data, label_encoder), fs')"
    and "0 < batch_size hp" and "0 < test_batch_size hp"
  shows "train_data =
           (map (PaddedBatch io)
              (batch_groups (batch_size hp) False (examples io hp label_encoder (train_shards hp))),
            snd (examples io hp label_encoder (train_shards hp))) \<and>
         exactly_batched (batch_size hp) (examples io hp label_encoder (train_shards hp))
           (batch_groups (batch_size hp) False (examples io hp label_encoder (train_shards hp))) \<and>
         valid_data =
           (map (PaddedBatch io)
              (batch_groups (batch_size hp) False (examples io hp label_encoder (valid_shards hp))),
            snd (examples io hp label_encoder (valid_shards hp))) \<and>
         exactly_batched (batch_size hp) (examples io hp label_encoder (valid_shards hp))
           (batch_groups (batch_size hp) False (examples io hp label_encoder (valid_shards hp))) \<and>
         test_data =
           (map (PaddedBatch io)
              (batch_groups (test_batch_size hp) False (examples io hp label_encoder (test_shards hp))),
            snd (examples io hp label_encoder (test_shards hp))) \<and>
         exactly_batched (test_batch_size hp) (examples io hp label_encoder (test_shards hp))
           (batch_groups (test_batch_size hp) False (examples io hp label_encoder (test_shards hp)))"
  using dataio_prepare_streams[OF assms(1)] assms(2,3)
  by (simp add: batched_def exactly_batched_groups)

theorem batches_have_configured_size_witness:
  "dataio_prepare (demo_lib 1) demo_hparams demo_saved_files =
     ((([\<lparr>batch_id = [''utt1'', ''utt2''], batch_sig = ([], []),
           batch_tokens = ([[1, 2, 1], [1, 2, 1]], [1, 1])\<rparr>], None),
       ([], None), ([], None), demo_encoder), demo_saved_files) \<and>
   0 < batch_size demo_hparams \<and> 0 < test_batch_size demo_hparams \<and>
   map ex_id (fst (examples (demo_lib 1) demo_hparams demo_encoder (train_shards demo_hparams))) =
     [''utt1'', ''utt2'', ''utt3''] \<and>
   exactly_batched (batch_size demo_hparams)
     (examples (demo_lib 1) demo_hparams demo_encoder (train_shards demo_hparams))
     (batch_groups (batch_size demo_hparams) False
        (examples (demo_lib 1) demo_hparams demo_encoder (train_shards demo_hparams)))"
proof -
  have run: "dataio_prepare (demo_lib 1) demo_hparams demo_saved_files =
     ((([\<lparr>batch_id = [''utt1'', ''utt2''], batch_sig = ([], []),
           batch_tokens = ([[1, 2, 1], [1, 2, 1]], [1, 1])\<rparr>], None),
       ([], None), ([], None), demo_encoder), demo_saved_files)"
    by (simp add: dataio_prepare_def demo_lib_def demo_hparams_def demo_sample_def Let_def
        shard_stream_def load_or_create_def os_path_join_def demo_saved_files_def
        map_iter_def batched_def batch_groups_def shard_extractor_def bind_err_def
        encode_sequence_def encode_label_def demo_encoder_def blank_label_def chain_def
        transpose_squeeze_def)
  have pos: "0 < batch_size demo_hparams" "0 < test_batch_size demo_hparams"
    by (simp_all add: demo_hparams_def)
  have exs: "map ex_id (fst (examples (demo_lib 1) demo_hparams demo_encoder
                               (train_shards demo_hparams))) = [''utt1'', ''utt2'', ''utt3'']"
    by (simp add: examples_def demo_lib_def demo_hparams_def demo_sample_def Let_def
        shard_stream_def map_iter_def shard_extractor_def bind_err_def
        encode_sequence_def encode_label_def demo_encoder_def blank_label_def)
  from batches_have_configured_size[OF run pos] run pos exs show ?thesis by blast
qed

text \<open>
  C10. At the start of a stage other than training, \<^verbatim>\<open>on_stage_start\<close> replaces both
  accumulators by new ones, whatever they held: the stage, run from a brain with other
  accumulators, gives the same result. After the batches of the stage, each accumulator
  holds one entry for each batch of this stage, in order, and nothing else, and the
  statistics computed at the end of the stage are the summaries of these entries.
\<close>

theorem stage_metrics_are_fresh:
  "stage \<noteq> TRAIN \<longrightarrow>
     on_stage_start (self\<lparr>cer_metric := old_cer, wer_metric := old_wer\<rparr>) stage epoch =
       on_stage_start self stage epoch \<and>
     run_stage sb (self\<lparr>cer_metric := old_cer, wer_metric := old_wer\<rparr>) stage epoch batches =
       run_stage sb self stage epoch batches \<and>
     (evaluate_batches sb (on_stage_start self stage epoch) batches stage = Inr (losses, self') \<longrightarrow>
        (\<exists>entries. map fst entries = map batch_id batches \<and>
           wer_metric self' = Some \<lparr>scores = entries, stats_class = error_rate_computer (hparams self)\<rparr> \<and>
           cer_metric self' = Some \<lparr>scores = entries, stats_class = cer_computer (hparams self)\<rparr> \<and>
           stage_statistics self' stage stage_loss =
             Inr ([(''loss'', stage_loss),
                   (''CER'', class_summarize (cer_computer (hparams self)) entries ''error_rate''),
                   (''WER'', class_summarize (error_rate_computer (hparams self)) entries ''error_rate'')],
                  self')))"
proof (intro impI conjI)
  assume ne: "stage \<noteq> TRAIN"
  show start: "on_stage_start (self\<lparr>cer_metric := old_cer, wer_metric := old_wer\<rparr>) stage epoch =
       on_stage_start self stage epoch"
    using ne by (simp add: on_stage_start_def)
  show "run_stage sb (self\<lparr>cer_metric := old_cer, wer_metric := old_wer\<rparr>) stage epoch batches =
       run_stage sb self stage epoch batches"
    by (simp add: run_stage_def start)
  assume run: "evaluate_batches sb (on_stage_start self stage epoch) batches stage = Inr (losses, self')"
  have w: "wer_metric (on_stage_start self stage epoch) =
             Some (construct_metric (error_rate_computer (hparams self)))"
    and c: "cer_metric (on_stage_start self stage epoch) =
             Some (construct_metric (cer_computer (hparams self)))"
    using ne by (simp_all add: on_stage_start_def)
  from evaluate_batches_appends[OF run ne w c] obtain entries where
    es: "map fst entries = map batch_id batches" and
    fin: "self' = (on_stage_start self stage epoch)
            \<lparr>wer_metric := Some ((construct_metric (error_rate_computer (hparams self)))
                \<lparr>scores := scores (construct_metric (error_rate_computer (hparams self))) @ entries\<rparr>),
             cer_metric := Some ((construct_metric (cer_computer (hparams self)))
                \<lparr>scores := scores (construct_metric (cer_computer (hparams self))) @ entries\<rparr>)\<rparr>"
    by blast
  show "\<exists>entries. map fst entries = map batch_id batches \<and>
           wer_metric self' = Some \<lparr>scores = entries, stats_class = error_rate_computer (hparams self)\<rparr> \<and>
           cer_metric self' = Some \<lparr>scores = entries, stats_class = cer_computer (hparams self)\<rparr> \<and>
           stage_statistics self' stage stage_loss =
             Inr ([(''loss'', stage_loss),
                   (''CER'', class_summarize (cer_computer (hparams self)) entries ''error_rate''),
                   (''WER'', class_summarize (error_rate_computer (hparams self)) entries ''error_rate'')],
                  self')"
    using ne es
    by (intro exI[of _ entries])
       (simp add: fin construct_metric_def stage_statistics_def bind_err_def attr_def Let_def summarize_def)
qed

theorem stage_metrics_are_fresh_witness:
  "VALID \<noteq> TRAIN \<and>
   map_option scores (wer_metric demo_ready_brain) = Some [([''utt0''], [[[97]]], [[[97]]])] \<and>
   (\<exists>losses self'.
      evaluate_batches (demo_lib 1) (on_stage_start demo_ready_brain VALID 3) [demo_batch] VALID =
        Inr (losses, self') \<and>
      map_option (map fst \<circ> scores) (wer_metric self') = Some [[''utt1'', ''utt2'']] \<and>
      map_option (map fst \<circ> scores) (cer_metric self') = Some [[''utt1'', ''utt2'']])"
proof -
  have old: "map_option scores (wer_metric demo_ready_brain) =
               Some [([''utt0''], [[[97]]], [[[97]]])]"
    by (simp add: demo_ready_brain_def demo_stats_def)
  have t: "tokenizer (on_stage_start demo_ready_brain VALID 3) = Some demo_encoder"
    and w: "wer_metric (on_stage_start demo_ready_brain VALID 3) \<noteq> None"
    and c: "cer_metric (on_stage_start demo_ready_brain VALID 3) \<noteq> None"
    by (simp_all add: on_stage_start_def demo_ready_brain_def init_optimizers_def
        demo_brain_def Let_def)
  have p: "predicted_words (Some demo_encoder) (Some [[1, 2, 1], [1, 2, 1]]) =
             Inr [[[97], [97]], [[97], [97]]]"
    by (simp add: predicted_words_def decode_words_def decode_ndim_def decode_index_def
        bind_err_def attr_def demo_encoder_def space_def blank_label_def)
  have g: "target_words (Some demo_encoder) [[1, 2, 1], [1, 0, 0]] [1, 1 / 3] =
             Inr [[[97], [97]], [[97]]]"
    by (simp add: target_words_def decode_words_def decode_ndim_def decode_index_def
        bind_err_def attr_def demo_encoder_def space_def blank_label_def
        py_int_def slice_to_def)
  have fw: "snd (snd (compute_forward (demo_lib 1) (on_stage_start demo_ready_brain VALID 3)
                        demo_batch VALID)) = Some [[1, 2, 1], [1, 2, 1]]"
    by (simp add: compute_forward_def forward_inputs_def demo_lib_def demo_batch_def
        on_stage_start_def demo_ready_brain_def init_optimizers_def demo_brain_def
        demo_modules_def demo_hparams_def Let_def)
  have "\<exists>loss self'. evaluate_batch (demo_lib 1) (on_stage_start demo_ready_brain VALID 3)
                       demo_batch VALID = Inr (loss, self')"
    using w c fw
    by (cases "compute_forward (demo_lib 1) (on_stage_start demo_ready_brain VALID 3)
                 demo_batch VALID")
       (auto simp add: evaluate_batch_def compute_objectives_def bind_err_def attr_def Let_def
          t p g objective_targets_def demo_batch_def split: prod.split)
  then obtain losses self' where
    run: "evaluate_batches (demo_lib 1) (on_stage_start demo_ready_brain VALID 3) [demo_batch]
            VALID = Inr (losses, self')"
    by (auto simp add: bind_err_def)
  from stage_metrics_are_fresh
         [where stage = VALID and self = demo_ready_brain and epoch = 3 and sb = "demo_lib 1"
            and batches = "[demo_batch]" and losses = losses and self' = self'
            and old_cer = None and old_wer = None and stage_loss = 0] run
  have "map_option (map fst \<circ> scores) (wer_metric self') = Some [[''utt1'', ''utt2'']] \<and>
        map_option (map fst \<circ> scores) (cer_metric self') = Some [[''utt1'', ''utt2'']]"
    by (auto simp add: demo_batch_def)
  with run old show ?thesis by blast
qed

end
